theory Spec2Isabelle
  imports Complex_Main "HOL-Library.Sublist" "HOL-Library.AList"
begin

section \<open>Cost tracking (src/utils/cost\_tracker.py)\<close>

text \<open>
  Python floats are modelled as real numbers and Python's unbounded integers as
  \<^typ>\<open>int\<close>; strings are \<^typ>\<open>string\<close>. Rounding errors of binary floating point are
  outside the model. Exceptions are values of the type \<open>error\<close>.
\<close>

datatype error = ValueError | CostLimitExceeded | IndexError | OverflowError

subsection \<open>The price table\<close>

record pricing =
  prompt :: real
  completion :: real

text \<open>
  \<open>MODEL_PRICING\<close> is a dict literal; a Python dict iterates in insertion order, so the
  table is an association list in the order of the source.
\<close>

definition MODEL_PRICING :: "(string \<times> pricing) list" where
  "MODEL_PRICING =
    [(''gpt-4'', \<lparr>prompt = 3 / 100, completion = 6 / 100\<rparr>),
     (''gpt-4-32k'', \<lparr>prompt = 6 / 100, completion = 12 / 100\<rparr>),
     (''gpt-4-turbo'', \<lparr>prompt = 1 / 100, completion = 3 / 100\<rparr>),
     (''gpt-4-turbo-preview'', \<lparr>prompt = 1 / 100, completion = 3 / 100\<rparr>),
     (''gpt-3.5-turbo'', \<lparr>prompt = 5 / 10000, completion = 15 / 10000\<rparr>),
     (''gpt-3.5-turbo-16k'', \<lparr>prompt = 3 / 1000, completion = 4 / 1000\<rparr>),
     (''text-embedding-3-small'', \<lparr>prompt = 2 / 100000, completion = 0\<rparr>),
     (''text-embedding-3-large'', \<lparr>prompt = 13 / 100000, completion = 0\<rparr>),
     (''text-embedding-ada-002'', \<lparr>prompt = 1 / 10000, completion = 0\<rparr>),
     (''davinci-002'', \<lparr>prompt = 2 / 1000, completion = 2 / 1000\<rparr>),
     (''babbage-002'', \<lparr>prompt = 4 / 10000, completion = 4 / 10000\<rparr>)]"

subsection \<open>\<open>calculate_cost\<close>\<close>

text \<open>
  The \<open>for ... else\<close> loop of \<open>calculate_cost\<close>: the first entry, in table order, whose
  key occurs in the model name (Python's \<open>model_name in model\<close> on strings is substring
  containment, \<^const>\<open>sublist\<close> on character lists); \<open>None\<close> when the loop ends without
  \<open>break\<close>.
\<close>

fun partial_match :: "(string \<times> pricing) list \<Rightarrow> string \<Rightarrow> pricing option" where
  "partial_match [] m = None"
| "partial_match ((model_name, model_pricing) # rest) m =
     (if sublist model_name m then Some model_pricing else partial_match rest m)"

text \<open>
  \<open>MODEL_PRICING.get(model)\<close> is \<^const>\<open>map_of\<close>; every entry of the table is a
  non-empty dict, so \<open>not pricing\<close> holds exactly when the key is absent.
\<close>

definition calculate_cost :: "int \<Rightarrow> int \<Rightarrow> string \<Rightarrow> error + real" where
  "calculate_cost p c m =
     (case (case map_of MODEL_PRICING m of
              Some pr \<Rightarrow> Some pr
            | None \<Rightarrow> partial_match MODEL_PRICING m) of
        None \<Rightarrow> Inl ValueError
      | Some pr \<Rightarrow>
          (let prompt_cost = (real_of_int p / 1000) * prompt pr;
               completion_cost = (real_of_int c / 1000) * completion pr
           in Inr (prompt_cost + completion_cost)))"

text \<open>
  The reading of the specification, for comparison: the entry is found by exact name or
  by the first table key that is a prefix of the model name.
\<close>

fun prefix_match :: "(string \<times> pricing) list \<Rightarrow> string \<Rightarrow> pricing option" where
  "prefix_match [] m = None"
| "prefix_match ((model_name, model_pricing) # rest) m =
     (if prefix model_name m then Some model_pricing else prefix_match rest m)"

definition calculate_cost_by_prefix :: "int \<Rightarrow> int \<Rightarrow> string \<Rightarrow> error + real" where
  "calculate_cost_by_prefix p c m =
     (case (case map_of MODEL_PRICING m of
              Some pr \<Rightarrow> Some pr
            | None \<Rightarrow> prefix_match MODEL_PRICING m) of
        None \<Rightarrow> Inl ValueError
      | Some pr \<Rightarrow>
          Inr ((real_of_int p / 1000) * prompt pr + (real_of_int c / 1000) * completion pr))"

subsection \<open>The tracker\<close>

text \<open>
  One entry of \<open>self.calls\<close>: the dict built by \<open>track_tokens\<close>. The timestamp is
  \<open>datetime.now().isoformat()\<close>, an input from the environment; the metadata dict is a
  list of pairs.
\<close>

record call_data =
  timestamp :: string
  model :: string
  prompt_tokens :: int
  completion_tokens :: int
  total_tokens :: int
  cost :: real
  metadata :: "(string \<times> string) list"

record CostTracker =
  session_name :: string
  calls :: "call_data list"
  start_time :: string

text \<open>
  \<open>__init__\<close>: \<open>session_name or f"session_{...}"\<close> takes the generated name when the
  argument is \<open>None\<close> or the empty string. \<open>stamp\<close> and \<open>now\<close> are the two readings of
  the clock, formatted.
\<close>

definition CostTracker_init :: "string option \<Rightarrow> string \<Rightarrow> string \<Rightarrow> CostTracker" where
  "CostTracker_init name stamp now =
     \<lparr>session_name =
        (case name of
           None \<Rightarrow> ''session_'' @ stamp
         | Some n \<Rightarrow> if n = [] then ''session_'' @ stamp else n),
      calls = [],
      start_time = now\<rparr>"

definition get_total_cost :: "CostTracker \<Rightarrow> real" where
  "get_total_cost self = sum_list (map cost (calls self))"

definition get_total_tokens :: "CostTracker \<Rightarrow> int" where
  "get_total_tokens self = sum_list (map total_tokens (calls self))"

text \<open>
  The two environment variables read by \<open>_check_thresholds\<close>. What the code does with
  the text of a variable is to hand it to \<open>float\<close>, so a variable is given by what
  \<open>float\<close> makes of its text: the variable is unset, or its text is the numeral of a
  float, or \<open>float\<close> rejects its text (the empty string, say) with \<open>ValueError\<close>.
  The floats that are not numbers (\<open>inf\<close>, \<open>nan\<close>) are outside the model, as everywhere.
\<close>

datatype setting = Unset | Parses real | Unparseable

record environ =
  COST_WARNING_THRESHOLD :: setting
  COST_MAX_THRESHOLD :: setting

text \<open>
  \<open>float(os.getenv(name, default))\<close>, with \<open>dflt\<close> the float of the default text
  (\<open>"10.0"\<close> and \<open>"50.0"\<close> in the source).
\<close>

definition getenv_float :: "setting \<Rightarrow> real \<Rightarrow> error + real" where
  "getenv_float var dflt =
     (case var of Unset \<Rightarrow> Inr dflt | Parses v \<Rightarrow> Inr v | Unparseable \<Rightarrow> Inl ValueError)"

definition unset_environ :: environ where
  "unset_environ = \<lparr>COST_WARNING_THRESHOLD = Unset, COST_MAX_THRESHOLD = Unset\<rparr>"

text \<open>What \<open>print\<close> writes: the warning with the total and the threshold it shows.\<close>

datatype printed = Warning real real

text \<open>
  \<open>_check_thresholds\<close>: the exception raised, or the lines printed. The two thresholds
  are read, the warning threshold first, before any comparison is made.
\<close>

definition check_thresholds :: "environ \<Rightarrow> CostTracker \<Rightarrow> error + printed list" where
  "check_thresholds env self =
     (let total_cost = get_total_cost self
      in case getenv_float (COST_WARNING_THRESHOLD env) 10 of
           Inl e \<Rightarrow> Inl e
         | Inr warning_threshold \<Rightarrow>
             (case getenv_float (COST_MAX_THRESHOLD env) 50 of
                Inl e \<Rightarrow> Inl e
              | Inr max_threshold \<Rightarrow>
                  if total_cost \<ge> max_threshold then Inl CostLimitExceeded
                  else if total_cost \<ge> warning_threshold
                       then Inr [Warning total_cost warning_threshold]
                       else Inr []))"

text \<open>
  \<open>track_tokens\<close> mutates \<open>self.calls\<close> before the thresholds are checked, so the result
  carries the tracker after the call in every case: the state, the lines printed, and
  the exception or the returned cost. \<open>metadata or {}\<close> is the empty dict for \<open>None\<close>
  (and for an empty dict).
\<close>

definition track_tokens ::
  "environ \<Rightarrow> string \<Rightarrow> int \<Rightarrow> int \<Rightarrow> string \<Rightarrow> (string \<times> string) list option \<Rightarrow> CostTracker
     \<Rightarrow> CostTracker \<times> printed list \<times> (error + real)" where
  "track_tokens env now p c m md self =
     (case calculate_cost p c m of
        Inl e \<Rightarrow> (self, [], Inl e)
      | Inr cst \<Rightarrow>
          (let call = \<lparr>timestamp = now, model = m, prompt_tokens = p, completion_tokens = c,
                       total_tokens = p + c, cost = cst,
                       metadata = (case md of None \<Rightarrow> [] | Some d \<Rightarrow> d)\<rparr>;
               self' = self\<lparr>calls := calls self @ [call]\<rparr>
           in case check_thresholds env self' of
                Inl e \<Rightarrow> (self', [], Inl e)
              | Inr out \<Rightarrow> (self', out, Inr cst)))"

text \<open>
  A caller making one \<open>track_tokens\<close> call after another on the same tracker, each with
  its own timestamp and arguments; an exception ends the sequence. The result is the
  tracker and the costs returned so far, or the exception.
\<close>

type_synonym track_args = "string \<times> int \<times> int \<times> string \<times> (string \<times> string) list option"

fun track_all :: "environ \<Rightarrow> track_args list \<Rightarrow> CostTracker \<Rightarrow> CostTracker \<times> (error + real list)" where
  "track_all env [] self = (self, Inr [])"
| "track_all env ((now, p, c, m, md) # rest) self =
     (case track_tokens env now p c m md self of
        (self', out, Inl e) \<Rightarrow> (self', Inl e)
      | (self', out, Inr cst) \<Rightarrow>
          (case track_all env rest self' of
             (self'', Inl e) \<Rightarrow> (self'', Inl e)
           | (self'', Inr csts) \<Rightarrow> (self'', Inr (cst # csts))))"

subsection \<open>The session report\<close>

record model_stats =
  stat_calls :: int
  stat_cost :: real
  stat_tokens :: int

text \<open>
  The loop that groups the calls by model. \<open>by_model\<close> is a dict: a new key goes to the
  end (\<^const>\<open>AList.update\<close>), the three \<open>+=\<close> change the entry in place
  (\<^const>\<open>AList.map_entry\<close>).
\<close>

fun group_by_model :: "call_data list \<Rightarrow> (string \<times> model_stats) list \<Rightarrow> (string \<times> model_stats) list" where
  "group_by_model [] by_model = by_model"
| "group_by_model (call # rest) by_model =
     (let m = model call;
          by_model1 =
            (if map_of by_model m = None
             then AList.update m \<lparr>stat_calls = 0, stat_cost = 0, stat_tokens = 0\<rparr> by_model
             else by_model);
          by_model2 =
            AList.map_entry m
              (\<lambda>s. s\<lparr>stat_calls := stat_calls s + 1,
                      stat_cost := stat_cost s + cost call,
                      stat_tokens := stat_tokens s + total_tokens call\<rparr>)
              by_model1
      in group_by_model rest by_model2)"

text \<open>
  Python's built-in \<open>round(x, ndigits)\<close> on a float: the nearest multiple of
  \<open>10 ^ -ndigits\<close>. The code rounds the binary float of the total, which lies strictly
  on one side of a decimal tie such as 0.00005 even where the exact total is the tie
  (\<open>round(0.00005, 4)\<close> is 0.0001 and \<open>round(0.00015, 4)\<close> is 0.0001). On which
  side it lies is not a matter of the exact total, so it is an input: \<open>up\<close>
  says that the float lies above the tie.
\<close>

definition py_round :: "bool \<Rightarrow> real \<Rightarrow> nat \<Rightarrow> real" where
  "py_round up x ndigits =
     (let y = x * 10 ^ ndigits;
          f = \<lfloor>y\<rfloor>;
          d = y - of_int f
      in of_int (if d < 1 / 2 then f
                 else if d > 1 / 2 then f + 1
                 else if up then f + 1 else f) / 10 ^ ndigits)"

text \<open>
  The report dict. The keys that only the report of a non-empty session has are
  optional fields. \<open>now\<close> and \<open>duration\<close> are \<open>datetime.now()\<close> and its distance from
  the start, formatted; \<open>up\<close> is the side of a tie on which the float of the total
  lies, see \<open>py_round\<close>.
\<close>

record session_report =
  report_session_name :: string
  report_start_time :: "string option"
  report_end_time :: "string option"
  report_duration :: string
  report_total_calls :: nat
  report_total_cost :: real
  report_total_tokens :: int
  report_by_model :: "(string \<times> model_stats) list option"
  report_calls :: "call_data list option"

definition get_session_report ::
  "bool \<Rightarrow> string \<Rightarrow> string \<Rightarrow> CostTracker \<Rightarrow> session_report" where
  "get_session_report up now duration self =
     (if calls self = []
      then \<lparr>report_session_name = session_name self,
            report_start_time = None,
            report_end_time = None,
            report_duration = duration,
            report_total_calls = 0,
            report_total_cost = 0,
            report_total_tokens = 0,
            report_by_model = None,
            report_calls = None\<rparr>
      else
        (let total_cost = get_total_cost self;
             total_tokens' = get_total_tokens self;
             by_model = group_by_model (calls self) []
         in \<lparr>report_session_name = session_name self,
             report_start_time = Some (start_time self),
             report_end_time = Some now,
             report_duration = duration,
             report_total_calls = length (calls self),
             report_total_cost = py_round up total_cost 4,
             report_total_tokens = total_tokens',
             report_by_model = Some by_model,
             report_calls = Some (calls self)\<rparr>))"

text \<open>The sums of the per-model breakdown of a report (nothing to add when it has none).\<close>

definition breakdown_cost :: "session_report \<Rightarrow> real" where
  "breakdown_cost r =
     (case report_by_model r of None \<Rightarrow> 0 | Some bm \<Rightarrow> sum_list (map (stat_cost \<circ> snd) bm))"

definition breakdown_tokens :: "session_report \<Rightarrow> int" where
  "breakdown_tokens r =
     (case report_by_model r of None \<Rightarrow> 0 | Some bm \<Rightarrow> sum_list (map (stat_tokens \<circ> snd) bm))"

section \<open>Retry with exponential backoff (src/utils/api\_helpers.py)\<close>

text \<open>
  The parameters of the decorator. \<open>retryable_exceptions\<close> is a tuple of exception
  classes; what the \<open>except\<close> clause needs of it is whether a raised exception is an
  instance of one of them, a predicate on the exceptions \<open>'e\<close> of the wrapped function.
\<close>

record 'e retry_config =
  max_retries :: int
  initial_delay :: real
  max_delay :: real
  exponential_base :: real
  jitter :: bool
  retryable_exceptions :: "'e \<Rightarrow> bool"

text \<open>One invocation of the wrapped function returns a value or raises.\<close>

datatype ('a, 'e) outcome = Return 'a | Raise 'e

text \<open>
  An exception leaving the wrapper is one the wrapped function raised or one raised by
  the sleep between two attempts.
\<close>

datatype 'e raised = FromFunc 'e | FromSleep error

text \<open>
  What a run of the wrapper does besides returning: how often it invoked the wrapped
  function, the value of \<open>delay\<close> at each backoff (before jitter and cap), and the
  delays it slept.
\<close>

record trace =
  invocations :: nat
  nominal_delays :: "real list"
  slept :: "real list"

definition no_trace :: trace where
  "no_trace = \<lparr>invocations = 0, nominal_delays = [], slept = []\<rparr>"

text \<open>
  \<open>time.sleep\<close> first converts its argument to a signed 64-bit count of nanoseconds,
  rounding away from zero, and raises \<open>OverflowError\<close> when the count does not fit
  (a delay above 9223372036.854775807 seconds, or below the negative of about that);
  then it raises \<open>ValueError\<close> for a negative delay. A platform may refuse a long delay
  below that limit as well (a wake-up time past the end of the range of its clock, or a
  count of milliseconds that does not fit 32 bits); that depends on the platform and is
  left out, and nothing below is stated for delays longer than 4294967 seconds (the
  least of these limits, about 49 days). \<open>asyncio.sleep\<close> returns at once for an argument that is not
  positive and hands any other to the event loop, which accepts it.
\<close>

definition time_sleep :: "real \<Rightarrow> error option" where
  "time_sleep secs =
     (let ns = secs * 1000000000
      in if ns < - 9223372036854775808 \<or> ns > 9223372036854775807 then Some OverflowError
         else if secs < 0 then Some ValueError
         else None)"

definition asyncio_sleep :: "real \<Rightarrow> error option" where
  "asyncio_sleep secs = None"

text \<open>
  The delay computed in the \<open>except\<close> clause from the current \<open>delay\<close> and the value
  \<open>u\<close> of \<open>random.random()\<close>, which lies in \<open>[0, 1)\<close>.
\<close>

definition jitter_factor :: "real \<Rightarrow> real" where
  "jitter_factor u = 1 / 2 + u"

definition actual_delay :: "'e retry_config \<Rightarrow> real \<Rightarrow> real \<Rightarrow> real" where
  "actual_delay cfg delay u =
     (let actual = (if jitter cfg then delay * jitter_factor u else delay)
      in min actual (max_delay cfg))"

text \<open>
  The body of \<open>wrapper\<close> from the \<open>for\<close> loop on: \<open>attempt\<close> runs through
  \<open>range(max_retries + 1)\<close>. The wrapped function is given by the outcome of each of its
  invocations in turn, \<open>rnd k\<close> is the random number drawn after the failure of attempt
  \<open>k\<close>, and \<open>sleep\<close> is \<open>time.sleep\<close> or \<open>asyncio.sleep\<close>. Leaving the loop at its end
  returns \<open>None\<close>. The log messages are not modelled; they format \<open>func.__name__\<close>,
  which a function defined with \<open>def\<close> has.
\<close>

function attempt_loop ::
  "(real \<Rightarrow> error option) \<Rightarrow> 'e retry_config \<Rightarrow> (nat \<Rightarrow> ('a, 'e) outcome) \<Rightarrow> (nat \<Rightarrow> real)
     \<Rightarrow> nat \<Rightarrow> real \<Rightarrow> trace \<Rightarrow> ('e raised + 'a option) \<times> trace" where
  "attempt_loop sleep cfg func rnd attempt delay tr =
     (if int attempt < max_retries cfg + 1
      then
        (let tr1 = tr\<lparr>invocations := invocations tr + 1\<rparr>
         in case func (invocations tr) of
              Return v \<Rightarrow> (Inr (Some v), tr1)
            | Raise e \<Rightarrow>
                if \<not> retryable_exceptions cfg e then (Inl (FromFunc e), tr1)
                else if int attempt = max_retries cfg then (Inl (FromFunc e), tr1)
                else
                  (let d = actual_delay cfg delay (rnd attempt);
                       tr2 = tr1\<lparr>nominal_delays := nominal_delays tr1 @ [delay]\<rparr>
                   in case sleep d of
                        Some err \<Rightarrow> (Inl (FromSleep err), tr2)
                      | None \<Rightarrow>
                          attempt_loop sleep cfg func rnd (attempt + 1)
                            (delay * exponential_base cfg)
                            (tr2\<lparr>slept := slept tr2 @ [d]\<rparr>)))
      else (Inr None, tr))"
  by pat_completeness auto
termination
  by (relation "measure (\<lambda>(sleep, cfg, func, rnd, attempt, delay, tr).
        nat (max_retries cfg + 1 - int attempt))") auto

declare attempt_loop.simps [simp del]

definition retry_with_backoff ::
  "'e retry_config \<Rightarrow> (nat \<Rightarrow> ('a, 'e) outcome) \<Rightarrow> (nat \<Rightarrow> real)
     \<Rightarrow> ('e raised + 'a option) \<times> trace" where
  "retry_with_backoff cfg func rnd =
     attempt_loop time_sleep cfg func rnd 0 (initial_delay cfg) no_trace"

definition async_retry_with_backoff ::
  "'e retry_config \<Rightarrow> (nat \<Rightarrow> ('a, 'e) outcome) \<Rightarrow> (nat \<Rightarrow> real)
     \<Rightarrow> ('e raised + 'a option) \<times> trace" where
  "async_retry_with_backoff cfg func rnd =
     attempt_loop asyncio_sleep cfg func rnd 0 (initial_delay cfg) no_trace"

text \<open>
  The delays in closed form: the nominal delay of the backoff after attempt \<open>k\<close>, and
  the delay handed to the sleep there.
\<close>

definition nominal_delay :: "'e retry_config \<Rightarrow> nat \<Rightarrow> real" where
  "nominal_delay cfg k = initial_delay cfg * exponential_base cfg ^ k"

definition scheduled_delay :: "'e retry_config \<Rightarrow> (nat \<Rightarrow> real) \<Rightarrow> nat \<Rightarrow> real" where
  "scheduled_delay cfg rnd k = actual_delay cfg (nominal_delay cfg k) (rnd k)"

text \<open>A configuration used in the examples: two retries, delays 1 and 2 before jitter.\<close>

definition demo_config :: "string retry_config" where
  "demo_config = \<lparr>max_retries = 2, initial_delay = 1, max_delay = 60, exponential_base = 2,
     jitter = True, retryable_exceptions = (\<lambda>e. True)\<rparr>"

section \<open>Rate limiting (src/utils/api\_helpers.py)\<close>

subsection \<open>The clock\<close>

text \<open>
  \<open>time.time()\<close> and \<open>time.sleep\<close> act on the clock of the environment. The world holds
  the time of the last event and, for each clock reading still to come, the time that
  passes before it (the clock does not run backwards: a negative entry counts as 0, and
  so does a missing one). Sleeping lets at least the requested time pass; what passes
  beyond it shows in the next reading.
\<close>

record world =
  clock :: real
  elapsing :: "real list"

definition time_time :: "world \<Rightarrow> real \<times> world" where
  "time_time w =
     (let t = clock w + (case elapsing w of [] \<Rightarrow> 0 | d # _ \<Rightarrow> max 0 d)
      in (t, w\<lparr>clock := t, elapsing := tl (elapsing w)\<rparr>))"

definition sleep_for :: "real \<Rightarrow> world \<Rightarrow> world" where
  "sleep_for secs w = w\<lparr>clock := clock w + secs\<rparr>"

subsection \<open>\<open>RateLimiter\<close>\<close>

text \<open>The deque \<open>requests\<close> is a list with its left end first.\<close>

record RateLimiter =
  max_requests :: int
  time_window :: real
  requests :: "real list"

definition RateLimiter_init :: "int \<Rightarrow> real \<Rightarrow> RateLimiter" where
  "RateLimiter_init n window = \<lparr>max_requests = n, time_window = window, requests = []\<rparr>"

text \<open>
  The \<open>while\<close> loop at the head of \<open>acquire\<close> pops from the left while the deque is
  not empty and its first element is older than \<open>now - time_window\<close>.
\<close>

definition prune :: "real \<Rightarrow> 'a RateLimiter_scheme \<Rightarrow> 'a RateLimiter_scheme" where
  "prune now self =
     self\<lparr>requests := dropWhile (\<lambda>t. t < now - time_window self) (requests self)\<rparr>"

text \<open>The last statement of \<open>acquire\<close>: \<open>self.requests.append(time.time())\<close>.\<close>

definition record_request ::
  "world \<Rightarrow> 'a RateLimiter_scheme \<Rightarrow> world \<times> 'a RateLimiter_scheme" where
  "record_request w self =
     (snd (time_time w), self\<lparr>requests := requests self @ [fst (time_time w)]\<rparr>)"

text \<open>
  \<open>RateLimiter.acquire\<close>. \<open>self.requests[0]\<close> raises \<open>IndexError\<close> on an empty deque,
  which the test \<open>len(self.requests) >= self.max_requests\<close> lets through when
  \<open>max_requests\<close> is not positive. The result is the exception, if any, with the world
  and the limiter after the call.
\<close>

function acquire :: "world \<Rightarrow> RateLimiter \<Rightarrow> error option \<times> world \<times> RateLimiter" where
  "acquire w self =
     (let now = fst (time_time w);
          w1 = snd (time_time w);
          self1 = prune now self
      in if int (length (requests self1)) \<ge> max_requests self1
         then
           (case requests self1 of
              [] \<Rightarrow> (Some IndexError, w1, self1)
            | oldest_request # _ \<Rightarrow>
                (let wait_time = time_window self1 - (now - oldest_request)
                 in if wait_time > 0
                    then acquire (sleep_for wait_time w1) self1
                    else (None, record_request w1 self1)))
         else (None, record_request w1 self1))"
  by pat_completeness auto

text \<open>
  Termination: a recursive call follows a sleep that ends exactly when the oldest
  request leaves the window, so the call after it either records at once or prunes.
\<close>

lemma dropWhile_same_or_shorter:
  "dropWhile P xs = xs \<or> length (dropWhile P xs) < length xs"
  by (induction xs) (auto simp: less_Suc_eq_le length_dropWhile_le)

lemma time_time_ge: "clock w \<le> fst (time_time w)"
  by (simp add: time_time_def Let_def split: list.splits)

lemma clock_time_time: "clock (snd (time_time w)) = fst (time_time w)"
  by (simp add: time_time_def Let_def)

termination acquire
proof (relation "measure (\<lambda>(w, self). 2 * length (requests self)
          + (if requests self \<noteq> [] \<and> hd (requests self) + time_window self > clock w
             then 1 else 0))", goal_cases)
  case 1
  show ?case by simp
next
  case (2 w self now w1 self1 oldest rest wait_time)
  let ?P = "\<lambda>t. t < now - time_window self"
  have reqs: "dropWhile ?P (requests self) = oldest # rest"
    using 2 by (simp add: prune_def)
  have tw: "time_window self1 = time_window self" using 2 by (simp add: prune_def)
  have wait: "oldest + time_window self > now" using 2 tw by simp
  have clk: "clock (sleep_for wait_time w1) = oldest + time_window self"
    using 2 tw by (simp add: sleep_for_def clock_time_time)
  have new: "(if requests self1 \<noteq> [] \<and> hd (requests self1) + time_window self1
                  > clock (sleep_for wait_time w1) then 1 else 0) = (0::nat)"
    using 2 clk tw by simp
  have len1: "length (requests self1) = Suc (length rest)" using 2 by simp
  from dropWhile_same_or_shorter [of ?P "requests self"]
  have "2 * length (requests self1) <
        2 * length (requests self)
          + (if requests self \<noteq> [] \<and> hd (requests self) + time_window self > clock w
             then 1 else 0)"
  proof
    assume same: "dropWhile ?P (requests self) = requests self"
    with reqs have r: "requests self = oldest # rest" by simp
    have "clock w \<le> now" using 2 time_time_ge by simp
    with wait r have "hd (requests self) + time_window self > clock w" by simp
    with r len1 show ?thesis by simp
  next
    assume "length (dropWhile ?P (requests self)) < length (requests self)"
    with reqs len1 show ?thesis by simp
  qed
  with new show ?case by simp
qed

declare acquire.simps [simp del]

text \<open>
  Callers that call \<open>acquire\<close> one after the other, each when the one before has
  returned; an exception ends the sequence.
\<close>

fun acquire_n :: "nat \<Rightarrow> world \<Rightarrow> RateLimiter \<Rightarrow> error option \<times> world \<times> RateLimiter" where
  "acquire_n 0 w self = (None, w, self)"
| "acquire_n (Suc n) w self =
     (case acquire w self of
        (Some e, w', self') \<Rightarrow> (Some e, w', self')
      | (None, w', self') \<Rightarrow> acquire_n n w' self')"

text \<open>
  The recorded timestamps inside the trailing interval of length \<open>window\<close> that ends at
  \<open>t\<close>, the interval taken open at its old end.
\<close>

definition in_window :: "real \<Rightarrow> real \<Rightarrow> real list \<Rightarrow> real list" where
  "in_window window t rs = filter (\<lambda>r. t - window < r \<and> r \<le> t) rs"

subsection \<open>\<open>AsyncRateLimiter\<close>\<close>

text \<open>
  The fields of \<open>RateLimiter\<close> and the \<open>asyncio.Lock\<close>, of which the model keeps whether
  it is held. \<open>async with self.lock\<close> waits while the lock is held and releases it when
  the block is left. \<open>asyncio.Lock\<close> is not reentrant: a coroutine that waits for a lock
  it holds itself waits for ever, since nothing else releases the lock. Not returning is
  the value \<open>None\<close>.
\<close>


record AsyncRateLimiter = RateLimiter +
  locked :: bool

definition AsyncRateLimiter_init :: "int \<Rightarrow> real \<Rightarrow> AsyncRateLimiter" where
  "AsyncRateLimiter_init n window =
     \<lparr>max_requests = n, time_window = window, requests = [], locked = False\<rparr>"

function async_acquire ::
  "world \<Rightarrow> AsyncRateLimiter \<Rightarrow> (error option \<times> world \<times> AsyncRateLimiter) option" where
  "async_acquire w self =
     (if locked self then None
      else
        (let self0 = self\<lparr>locked := True\<rparr>;
             now = fst (time_time w);
             w1 = snd (time_time w);
             self1 = prune now self0
         in if int (length (requests self1)) \<ge> max_requests self1
            then
              (case requests self1 of
                 [] \<Rightarrow> Some (Some IndexError, w1, self1\<lparr>locked := False\<rparr>)
               | oldest_request # _ \<Rightarrow>
                   (let wait_time = time_window self1 - (now - oldest_request)
                    in if wait_time > 0
                       then
                         (case async_acquire (sleep_for wait_time w1) self1 of
                            None \<Rightarrow> None
                          | Some (err, w2, self2) \<Rightarrow> Some (err, w2, self2\<lparr>locked := False\<rparr>))
                       else
                         (case record_request w1 self1 of
                            (w2, self2) \<Rightarrow> Some (None, w2, self2\<lparr>locked := False\<rparr>))))
            else
              (case record_request w1 self1 of
                 (w2, self2) \<Rightarrow> Some (None, w2, self2\<lparr>locked := False\<rparr>))))"
  by pat_completeness auto
termination
  by (relation "measure (\<lambda>(w, self). if locked self then 0 else 1)") (auto simp: prune_def)

declare async_acquire.simps [simp del]

subsection \<open>\<open>RateLimiter.acquire\<close> called from several threads\<close>

text \<open>
  \<open>RateLimiter\<close> has no lock, so the statements of two calls of \<open>acquire\<close> on the same
  limiter may interleave. A thread inside \<open>acquire\<close> is at one of its statements: before
  \<open>now = time.time()\<close>, before the pruning loop, before the test of the length (both with
  the value of \<open>now\<close>), asleep until a time, before the final \<open>append\<close>, or it has left
  the call. Each statement is taken as one step; the interpreter may switch threads
  between any two of them.
\<close>

datatype pc = Start | Pruning real | Checking real | Sleeping real | Recording
  | Finished | Failed error

text \<open>One step of a thread at time \<open>t\<close>; \<open>None\<close> when the thread cannot move.\<close>

definition thread_step :: "real \<Rightarrow> RateLimiter \<Rightarrow> pc \<Rightarrow> (RateLimiter \<times> pc) option" where
  "thread_step t self p =
     (case p of
        Start \<Rightarrow> Some (self, Pruning t)
      | Pruning now \<Rightarrow> Some (prune now self, Checking now)
      | Checking now \<Rightarrow>
          if int (length (requests self)) \<ge> max_requests self
          then
            (case requests self of
               [] \<Rightarrow> Some (self, Failed IndexError)
             | oldest_request # _ \<Rightarrow>
                 (let wait_time = time_window self - (now - oldest_request)
                  in if wait_time > 0 then Some (self, Sleeping (t + wait_time))
                     else Some (self, Recording)))
          else Some (self, Recording)
      | Sleeping until \<Rightarrow> if t \<ge> until then Some (self, Start) else None
      | Recording \<Rightarrow> Some (self\<lparr>requests := requests self @ [t]\<rparr>, Finished)
      | Finished \<Rightarrow> None
      | Failed e \<Rightarrow> None)"

text \<open>
  The threads share the limiter and the clock. A schedule says which thread takes the
  next step, or that time passes.
\<close>

record shared =
  wall_clock :: real
  limiter :: RateLimiter
  threads :: "pc list"

datatype action = Run nat | Tick real

definition step :: "action \<Rightarrow> shared \<Rightarrow> shared option" where
  "step a s =
     (case a of
        Tick d \<Rightarrow> Some (s\<lparr>wall_clock := wall_clock s + max 0 d\<rparr>)
      | Run i \<Rightarrow>
          if i < length (threads s)
          then
            (case thread_step (wall_clock s) (limiter s) (threads s ! i) of
               None \<Rightarrow> None
             | Some (self', p') \<Rightarrow> Some (s\<lparr>limiter := self', threads := (threads s)[i := p']\<rparr>))
          else None)"

fun run :: "action list \<Rightarrow> shared \<Rightarrow> shared option" where
  "run [] s = Some s"
| "run (a # as) s = (case step a s of None \<Rightarrow> None | Some s' \<Rightarrow> run as s')"
section \<open>Properties of the cost tracker\<close>

subsection \<open>The price lookup\<close>

lemma partial_match_none:
  "(\<forall>k \<in> set (map fst t). \<not> sublist k m) \<Longrightarrow> partial_match t m = None"
  by (induction t) auto

lemma partial_match_first:
  "i < length t \<Longrightarrow> sublist (fst (t ! i)) m \<Longrightarrow> (\<forall>j<i. \<not> sublist (fst (t ! j)) m)
     \<Longrightarrow> partial_match t m = Some (snd (t ! i))"
proof (induction t arbitrary: i)
  case Nil
  then show ?case by simp
next
  case (Cons e t)
  obtain k v where e: "e = (k, v)" by (cases e)
  show ?case
  proof (cases i)
    case 0
    with Cons.prems e show ?thesis by simp
  next
    case (Suc i')
    from Cons.prems(3) Suc have "\<not> sublist k m" using e by fastforce
    moreover have "partial_match t m = Some (snd (t ! i'))"
    proof (rule Cons.IH)
      show "i' < length t" using Cons.prems(1) Suc by simp
      show "sublist (fst (t ! i')) m" using Cons.prems(2) Suc by simp
      show "\<forall>j<i'. \<not> sublist (fst (t ! j)) m"
      proof (intro allI impI)
        fix j assume "j < i'"
        then have "Suc j < i" using Suc by simp
        with Cons.prems(3) have "\<not> sublist (fst ((e # t) ! Suc j)) m" by blast
        then show "\<not> sublist (fst (t ! j)) m" by simp
      qed
    qed
    ultimately show ?thesis using e Suc by simp
  qed
qed

text \<open>
  Claim C5, amended. For all token counts and every model name, \<open>calculate_cost\<close>
  returns \<open>(p / 1000) * price_prompt + (c / 1000) * price_completion\<close>, where the price
  entry is the one stored under the model name or, when there is none, the first entry
  in table order whose key is a substring of the model name; when no key is a
  substring of the model name either, it raises \<open>ValueError\<close>.
\<close>

theorem calculate_cost_lookup:
  "(map_of MODEL_PRICING m = Some pr \<longrightarrow>
      calculate_cost p c m =
        Inr ((real_of_int p / 1000) * prompt pr + (real_of_int c / 1000) * completion pr))
   \<and> (map_of MODEL_PRICING m = None \<and> i < length MODEL_PRICING
        \<and> sublist (fst (MODEL_PRICING ! i)) m
        \<and> (\<forall>j<i. \<not> sublist (fst (MODEL_PRICING ! j)) m) \<longrightarrow>
      calculate_cost p c m =
        Inr ((real_of_int p / 1000) * prompt (snd (MODEL_PRICING ! i))
             + (real_of_int c / 1000) * completion (snd (MODEL_PRICING ! i))))
   \<and> (map_of MODEL_PRICING m = None
        \<and> (\<forall>k \<in> set (map fst MODEL_PRICING). \<not> sublist k m) \<longrightarrow>
      calculate_cost p c m = Inl ValueError)"
proof (intro conjI impI)
  assume "map_of MODEL_PRICING m = Some pr"
  then show "calculate_cost p c m =
        Inr ((real_of_int p / 1000) * prompt pr + (real_of_int c / 1000) * completion pr)"
    by (simp add: calculate_cost_def)
next
  assume a: "map_of MODEL_PRICING m = None \<and> i < length MODEL_PRICING
        \<and> sublist (fst (MODEL_PRICING ! i)) m
        \<and> (\<forall>j<i. \<not> sublist (fst (MODEL_PRICING ! j)) m)"
  then have "partial_match MODEL_PRICING m = Some (snd (MODEL_PRICING ! i))"
    using partial_match_first [of i MODEL_PRICING m] by (elim conjE) simp
  with a show "calculate_cost p c m =
        Inr ((real_of_int p / 1000) * prompt (snd (MODEL_PRICING ! i))
             + (real_of_int c / 1000) * completion (snd (MODEL_PRICING ! i)))"
    by (simp add: calculate_cost_def)
next
  assume a: "map_of MODEL_PRICING m = None
        \<and> (\<forall>k \<in> set (map fst MODEL_PRICING). \<not> sublist k m)"
  then have "partial_match MODEL_PRICING m = None"
    using partial_match_none [of MODEL_PRICING m] by (elim conjE) simp
  with a show "calculate_cost p c m = Inl ValueError"
    by (simp add: calculate_cost_def)
qed

lemma MODEL_PRICING_keys:
  "map fst MODEL_PRICING =
    [''gpt-4'', ''gpt-4-32k'', ''gpt-4-turbo'', ''gpt-4-turbo-preview'', ''gpt-3.5-turbo'',
     ''gpt-3.5-turbo-16k'', ''text-embedding-3-small'', ''text-embedding-3-large'',
     ''text-embedding-ada-002'', ''davinci-002'', ''babbage-002'']"
  by (simp add: MODEL_PRICING_def)

text \<open>The three branches of C5 at concrete model names.\<close>

theorem calculate_cost_lookup_witness:
  "calculate_cost 1000 1000 ''gpt-4-32k'' = Inr (18 / 100)
   \<and> calculate_cost 1000 0 ''my-gpt-3.5-turbo-16k'' = Inr (5 / 10000)
   \<and> calculate_cost 1 1 ''claude-3'' = Inl ValueError"
proof (intro conjI)
  have "map_of MODEL_PRICING ''gpt-4-32k'' = Some \<lparr>prompt = 6 / 100, completion = 12 / 100\<rparr>"
    by (simp add: MODEL_PRICING_def)
  with calculate_cost_lookup [of "''gpt-4-32k''" "\<lparr>prompt = 6 / 100, completion = 12 / 100\<rparr>" 1000 1000]
  show "calculate_cost 1000 1000 ''gpt-4-32k'' = Inr (18 / 100)" by simp
next
  let ?m = "''my-gpt-3.5-turbo-16k''"
  have 1: "map_of MODEL_PRICING ?m = None"
    by (simp add: MODEL_PRICING_def)
  have 2: "(4::nat) < length MODEL_PRICING" by (simp add: MODEL_PRICING_def)
  have 3: "sublist (fst (MODEL_PRICING ! 4)) ?m"
    by (simp add: MODEL_PRICING_def sublist_code)
  have 4: "\<forall>j<4. \<not> sublist (fst (MODEL_PRICING ! j)) ?m"
  proof (intro allI impI)
    fix j :: nat assume "j < 4"
    then consider "j = 0" | "j = 1" | "j = 2" | "j = 3" by linarith
    then show "\<not> sublist (fst (MODEL_PRICING ! j)) ?m"
      by cases (simp_all add: MODEL_PRICING_def sublist_code)
  qed
  have 5: "prompt (snd (MODEL_PRICING ! 4)) = 5 / 10000"
    by (simp add: MODEL_PRICING_def)
  have "calculate_cost 1000 0 ?m =
        Inr ((real_of_int 1000 / 1000) * prompt (snd (MODEL_PRICING ! 4))
             + (real_of_int 0 / 1000) * completion (snd (MODEL_PRICING ! 4)))"
    using calculate_cost_lookup [of ?m _ 1000 0 4] 1 2 3 4 by blast
  then show "calculate_cost 1000 0 ?m = Inr (5 / 10000)" by (simp add: 5)
next
  have 1: "map_of MODEL_PRICING ''claude-3'' = None" by (simp add: MODEL_PRICING_def)
  have 2: "\<forall>k \<in> set (map fst MODEL_PRICING). \<not> sublist k ''claude-3''"
    by (simp add: MODEL_PRICING_keys sublist_code)
  from calculate_cost_lookup [of "''claude-3''" _ 1 1] 1 2
  show "calculate_cost 1 1 ''claude-3'' = Inl ValueError" by blast
qed

text \<open>
  Claim C5 as stated fails: no key of the table is a prefix of \<open>x-gpt-4\<close>, so a lookup
  by prefix raises, but the key \<open>gpt-4\<close> occurs inside the name and the code prices
  the call with it.
\<close>

theorem calculate_cost_prefix_counterexample:
  "calculate_cost_by_prefix 1000 0 ''x-gpt-4'' = Inl ValueError
   \<and> calculate_cost 1000 0 ''x-gpt-4'' = Inr (3 / 100)"
  by (simp add: calculate_cost_by_prefix_def calculate_cost_def MODEL_PRICING_def sublist_code)

subsection \<open>Totals of a sequence of calls\<close>

lemma track_tokens_ok:
  assumes "track_tokens env now p c m md self = (self', out, Inr cst)"
  shows "calculate_cost p c m = Inr cst
     \<and> calls self' = calls self @ [\<lparr>timestamp = now, model = m, prompt_tokens = p,
           completion_tokens = c, total_tokens = p + c, cost = cst,
           metadata = (case md of None \<Rightarrow> [] | Some d \<Rightarrow> d)\<rparr>]"
  using assms by (auto simp: track_tokens_def Let_def split: sum.splits)

lemma track_all_ok:
  "track_all env args self = (self', Inr csts) \<Longrightarrow>
     map Inr csts = map (\<lambda>(now, p, c, m, md). calculate_cost p c m) args
     \<and> map cost (calls self') = map cost (calls self) @ csts
     \<and> map (\<lambda>cd. (timestamp cd, prompt_tokens cd, completion_tokens cd, model cd)) (calls self')
        = map (\<lambda>cd. (timestamp cd, prompt_tokens cd, completion_tokens cd, model cd)) (calls self)
          @ map (\<lambda>(now, p, c, m, md). (now, p, c, m)) args"
proof (induction args arbitrary: self csts)
  case Nil
  then show ?case by simp
next
  case (Cons a args)
  obtain now p c m md where a: "a = (now, p, c, m, md)" by (cases a)
  from Cons.prems a obtain s1 out cst csts' where
    1: "track_tokens env now p c m md self = (s1, out, Inr cst)" and
    2: "track_all env args s1 = (self', Inr csts')" and
    3: "csts = cst # csts'"
    by (auto split: prod.splits sum.splits)
  from track_tokens_ok [OF 1] Cons.IH [OF 2] a 3 show ?case by simp
qed

text \<open>
  Claim C6. When a sequence of \<open>track_tokens\<close> calls on a fresh tracker completes
  without an exception, the costs returned are the individually computed
  \<open>calculate_cost\<close> values, \<open>get_total_cost\<close> is their sum, and \<open>calls\<close> holds one record
  per call in the order of the calls. In particular \<open>track(100, 200, "gpt-3.5-turbo")\<close>
  followed by \<open>track(50, 100, "gpt-3.5-turbo")\<close> completes with total cost
  \<open>cost(100, 200) + cost(50, 100)\<close> and 450 total tokens.
\<close>

theorem track_all_total:
  "(track_all env args (CostTracker_init name stamp t0) = (self', Inr csts) \<longrightarrow>
      map Inr csts = map (\<lambda>(now, p, c, m, md). calculate_cost p c m) args
      \<and> get_total_cost self' = sum_list csts
      \<and> map cost (calls self') = csts
      \<and> map (\<lambda>cd. (timestamp cd, prompt_tokens cd, completion_tokens cd, model cd)) (calls self')
          = map (\<lambda>(now, p, c, m, md). (now, p, c, m)) args)
   \<and> snd (track_all unset_environ
             [(n1, 100, 200, ''gpt-3.5-turbo'', md1), (n2, 50, 100, ''gpt-3.5-turbo'', md2)]
             (CostTracker_init name stamp t0)) = Inr [7 / 20000, 7 / 40000]
   \<and> calculate_cost 100 200 ''gpt-3.5-turbo'' = Inr (7 / 20000)
   \<and> calculate_cost 50 100 ''gpt-3.5-turbo'' = Inr (7 / 40000)
   \<and> get_total_cost (fst (track_all unset_environ
             [(n1, 100, 200, ''gpt-3.5-turbo'', md1), (n2, 50, 100, ''gpt-3.5-turbo'', md2)]
             (CostTracker_init name stamp t0))) = 7 / 20000 + 7 / 40000
   \<and> get_total_tokens (fst (track_all unset_environ
             [(n1, 100, 200, ''gpt-3.5-turbo'', md1), (n2, 50, 100, ''gpt-3.5-turbo'', md2)]
             (CostTracker_init name stamp t0))) = 450"
proof (intro conjI impI)
  assume r: "track_all env args (CostTracker_init name stamp t0) = (self', Inr csts)"
  note ok = track_all_ok [OF r]
  have c0: "calls (CostTracker_init name stamp t0) = []" by (simp add: CostTracker_init_def)
  show "map Inr csts = map (\<lambda>(now, p, c, m, md). calculate_cost p c m) args"
    using ok by (elim conjE)
  show mc: "map cost (calls self') = csts"
    using ok unfolding c0 by simp
  show "get_total_cost self' = sum_list csts"
    by (simp add: get_total_cost_def mc)
  show "map (\<lambda>cd. (timestamp cd, prompt_tokens cd, completion_tokens cd, model cd)) (calls self')
          = map (\<lambda>(now, p, c, m, md). (now, p, c, m)) args"
    using ok unfolding c0 by simp
next
  have c1: "calculate_cost 100 200 ''gpt-3.5-turbo'' = Inr (7 / 20000)"
    by (simp add: calculate_cost_def MODEL_PRICING_def)
  have c2: "calculate_cost 50 100 ''gpt-3.5-turbo'' = Inr (7 / 40000)"
    by (simp add: calculate_cost_def MODEL_PRICING_def)
  show "calculate_cost 100 200 ''gpt-3.5-turbo'' = Inr (7 / 20000)" by (rule c1)
  show "calculate_cost 50 100 ''gpt-3.5-turbo'' = Inr (7 / 40000)" by (rule c2)
  let ?r = "track_all unset_environ
             [(n1, 100, 200, ''gpt-3.5-turbo'', md1), (n2, 50, 100, ''gpt-3.5-turbo'', md2)]
             (CostTracker_init name stamp t0)"
  have r: "?r = ((CostTracker_init name stamp t0)\<lparr>calls :=
       [\<lparr>timestamp = n1, model = ''gpt-3.5-turbo'', prompt_tokens = 100,
           completion_tokens = 200, total_tokens = 300, cost = 7 / 20000,
           metadata = (case md1 of None \<Rightarrow> [] | Some d \<Rightarrow> d)\<rparr>,
        \<lparr>timestamp = n2, model = ''gpt-3.5-turbo'', prompt_tokens = 50,
           completion_tokens = 100, total_tokens = 150, cost = 7 / 40000,
           metadata = (case md2 of None \<Rightarrow> [] | Some d \<Rightarrow> d)\<rparr>]\<rparr>, Inr [7 / 20000, 7 / 40000])"
    by (simp add: track_tokens_def c1 c2 check_thresholds_def get_total_cost_def
          getenv_float_def unset_environ_def CostTracker_init_def Let_def)
  show "snd ?r = Inr [7 / 20000, 7 / 40000]" by (simp only: r snd_conv)
  show "get_total_cost (fst ?r) = 7 / 20000 + 7 / 40000"
    by (simp only: r fst_conv) (simp add: get_total_cost_def)
  show "get_total_tokens (fst ?r) = 450"
    by (simp only: r fst_conv) (simp add: get_total_tokens_def)
qed

text \<open>C6 at a sequence of two calls with different models.\<close>

theorem track_all_total_witness:
  "get_total_cost (fst (track_all unset_environ
       [(''t1'', 100, 200, ''gpt-3.5-turbo'', None), (''t2'', 50, 100, ''gpt-4'', None)]
       (CostTracker_init (Some ''demo'') ''s'' ''t0''))) = 7 / 20000 + 15 / 2000
   \<and> snd (track_all unset_environ
       [(''t1'', 100, 200, ''gpt-3.5-turbo'', None), (''t2'', 50, 100, ''gpt-4'', None)]
       (CostTracker_init (Some ''demo'') ''s'' ''t0'')) = Inr [7 / 20000, 15 / 2000]"
proof -
  let ?args = "[(''t1'', 100, 200, ''gpt-3.5-turbo'', None), (''t2'', 50, 100, ''gpt-4'', None)]"
  let ?r = "track_all unset_environ ?args (CostTracker_init (Some ''demo'') ''s'' ''t0'')"
  have c1: "calculate_cost 100 200 ''gpt-3.5-turbo'' = Inr (7 / 20000)"
    by (simp add: calculate_cost_def MODEL_PRICING_def)
  have c2: "calculate_cost 50 100 ''gpt-4'' = Inr (15 / 2000)"
    by (simp add: calculate_cost_def MODEL_PRICING_def)
  have s: "snd ?r = Inr [7 / 20000, 15 / 2000]"
    by (simp add: track_tokens_def c1 c2 check_thresholds_def get_total_cost_def
          getenv_float_def unset_environ_def CostTracker_init_def Let_def)
  then have "?r = (fst ?r, Inr [7 / 20000, 15 / 2000])"
    by (metis prod.collapse)
  with track_all_total [of unset_environ ?args "Some ''demo''" "''s''" "''t0''" "fst ?r"
      "[7 / 20000, 15 / 2000]"]
  have "get_total_cost (fst ?r) = sum_list [7 / 20000, 15 / 2000]" by blast
  with s show ?thesis by simp
qed

subsection \<open>The session report\<close>

lemma sum_update_new:
  fixes g :: "'v \<Rightarrow> 'a::comm_monoid_add"
  shows "map_of bm m = None \<Longrightarrow>
    sum_list (map (g \<circ> snd) (AList.update m v bm)) = sum_list (map (g \<circ> snd) bm) + g v"
  by (induction bm) (auto simp: add.assoc split: if_splits)

lemma sum_map_entry:
  fixes g :: "'v \<Rightarrow> 'a::comm_monoid_add"
  assumes "\<And>s. g (f s) = g s + d"
  shows "map_of bm m \<noteq> None \<Longrightarrow>
    sum_list (map (g \<circ> snd) (AList.map_entry m f bm)) = sum_list (map (g \<circ> snd) bm) + d"
proof (induction bm)
  case Nil
  then show ?case by simp
next
  case (Cons e bm)
  show ?case
  proof (cases "fst e = m")
    case True
    then show ?thesis
      by (cases e) (simp add: assms ac_simps)
  next
    case False
    with Cons.prems have "map_of bm m \<noteq> None" by (cases e) (simp split: if_splits)
    with Cons.IH False show ?thesis by (cases e) (simp add: add.assoc)
  qed
qed

lemma map_of_update_same: "map_of (AList.update m v bm) m \<noteq> None"
  by (simp add: update_conv')

lemma group_step_sum:
  fixes g :: "model_stats \<Rightarrow> 'a::comm_monoid_add"
  assumes "\<And>s. g (f s) = g s + d" and "g z = 0"
  shows "sum_list (map (g \<circ> snd)
           (AList.map_entry m f (if map_of bm m = None then AList.update m z bm else bm)))
         = sum_list (map (g \<circ> snd) bm) + d"
proof (cases "map_of bm m = None")
  case True
  have "sum_list (map (g \<circ> snd) (AList.map_entry m f (AList.update m z bm)))
        = sum_list (map (g \<circ> snd) (AList.update m z bm)) + d"
    using assms(1) map_of_update_same by (rule sum_map_entry)
  also have "\<dots> = sum_list (map (g \<circ> snd) bm) + g z + d"
    by (simp add: sum_update_new [OF True])
  finally show ?thesis using True assms(2) by simp
next
  case False
  then have "sum_list (map (g \<circ> snd) (AList.map_entry m f bm))
        = sum_list (map (g \<circ> snd) bm) + d"
    using assms(1) by (intro sum_map_entry)
  with False show ?thesis by (simp only: if_False)
qed

lemma group_by_model_cost:
  "sum_list (map (stat_cost \<circ> snd) (group_by_model cs bm))
     = sum_list (map (stat_cost \<circ> snd) bm) + sum_list (map cost cs)"
proof (induction cs arbitrary: bm)
  case Nil
  then show ?case by simp
next
  case (Cons call cs)
  show ?case
    by (simp add: Let_def Cons.IH group_step_sum [where g = stat_cost and d = "cost call"]
          add.assoc del: comp_apply)
qed

lemma group_by_model_tokens:
  "sum_list (map (stat_tokens \<circ> snd) (group_by_model cs bm))
     = sum_list (map (stat_tokens \<circ> snd) bm) + sum_list (map total_tokens cs)"
proof (induction cs arbitrary: bm)
  case Nil
  then show ?case by simp
next
  case (Cons call cs)
  show ?case
    by (simp add: Let_def Cons.IH group_step_sum [where g = stat_tokens and d = "total_tokens call"]
          add.assoc del: comp_apply)
qed

text \<open>Rounding moves a value by at most half a unit of the last digit kept.\<close>

lemma py_round_close: "\<bar>py_round up x n - x\<bar> \<le> 1 / (2 * 10 ^ n)"
proof -
  define y where "y = x * 10 ^ n"
  define f where "f = \<lfloor>y\<rfloor>"
  define d where "d = y - of_int f"
  have d: "0 \<le> d" "d < 1" unfolding d_def f_def by linarith+
  have x: "x = y / 10 ^ n" unfolding y_def by simp
  define k where "k = (if d < 1 / 2 then f else if d > 1 / 2 then f + 1
                       else if up then f + 1 else f)"
  have r: "py_round up x n = of_int k / 10 ^ n"
    unfolding py_round_def k_def d_def f_def y_def by (simp add: Let_def)
  have "\<bar>of_int k - y\<bar> \<le> 1 / 2"
    unfolding k_def using d unfolding d_def by (auto simp: abs_if)
  then have "\<bar>of_int k - y\<bar> / 10 ^ n \<le> (1 / 2) / 10 ^ n"
    by (intro divide_right_mono) simp_all
  moreover have "\<bar>py_round up x n - x\<bar> = \<bar>of_int k / 10 ^ n - y / 10 ^ n\<bar>"
    by (simp only: r) (simp only: x [symmetric])
  moreover have "\<bar>of_int k / 10 ^ n - y / 10 ^ n\<bar> = \<bar>of_int k - y\<bar> / 10 ^ n"
    by (simp add: diff_divide_distrib [symmetric] abs_divide del: of_int_diff)
  ultimately show ?thesis by simp
qed

text \<open>
  Claim C7, amended. For every tracker, the token counts of the per-model breakdown of
  the session report sum to the report's \<open>total_tokens\<close>, the session's total tokens.
  The costs of the breakdown need not sum to the report's \<open>total_cost\<close>, which is the
  session total rounded to four decimals: the two differ by less than 0.0001 (a session
  without calls has no breakdown and the totals 0).
\<close>

theorem session_report_breakdown:
  "breakdown_tokens (get_session_report up now duration self)
        = report_total_tokens (get_session_report up now duration self)
   \<and> report_total_tokens (get_session_report up now duration self)
        = sum_list (map total_tokens (calls self))
   \<and> \<bar>breakdown_cost (get_session_report up now duration self)
        - report_total_cost (get_session_report up now duration self)\<bar> < 1 / 10000"
proof (cases "calls self = []")
  case True
  then show ?thesis
    by (simp add: breakdown_cost_def breakdown_tokens_def get_session_report_def)
next
  case False
  have t: "breakdown_tokens (get_session_report up now duration self)
        = report_total_tokens (get_session_report up now duration self)"
    "report_total_tokens (get_session_report up now duration self)
        = sum_list (map total_tokens (calls self))"
    using False
    by (simp_all add: breakdown_tokens_def get_session_report_def Let_def get_total_tokens_def
          group_by_model_tokens del: comp_apply)
  have b: "breakdown_cost (get_session_report up now duration self) = get_total_cost self"
    using False
    by (simp add: breakdown_cost_def get_session_report_def Let_def get_total_cost_def
          group_by_model_cost del: comp_apply)
  have c: "report_total_cost (get_session_report up now duration self)
        = py_round up (get_total_cost self) 4"
    using False by (simp add: get_session_report_def Let_def)
  have "\<bar>py_round up (get_total_cost self) 4 - get_total_cost self\<bar> \<le> 1 / (2 * 10 ^ 4)"
    by (rule py_round_close)
  then have "\<bar>get_total_cost self - py_round up (get_total_cost self) 4\<bar> < 1 / 10000"
    by (simp add: abs_minus_commute)
  with t b c show ?thesis by simp
qed

text \<open>
  Claim C7 as stated fails for the costs: after one call with a single prompt token of
  \<open>gpt-4\<close> the breakdown sums to 0.00003 and the report's \<open>total_cost\<close> is
  \<open>round(0.00003, 4) = 0.0\<close>.
\<close>

theorem session_report_rounded_counterexample:
  "breakdown_cost (get_session_report True ''t1'' ''0:00:01''
      (fst (track_tokens unset_environ ''t0'' 1 0 ''gpt-4'' None
             (CostTracker_init None ''s'' ''t0'')))) = 3 / 100000
   \<and> report_total_cost (get_session_report True ''t1'' ''0:00:01''
      (fst (track_tokens unset_environ ''t0'' 1 0 ''gpt-4'' None
             (CostTracker_init None ''s'' ''t0'')))) = 0
   \<and> breakdown_cost (get_session_report False ''t1'' ''0:00:01''
      (fst (track_tokens unset_environ ''t0'' 1 0 ''gpt-4'' None
             (CostTracker_init None ''s'' ''t0'')))) = 3 / 100000
   \<and> report_total_cost (get_session_report False ''t1'' ''0:00:01''
      (fst (track_tokens unset_environ ''t0'' 1 0 ''gpt-4'' None
             (CostTracker_init None ''s'' ''t0'')))) = 0"
  by (simp add: breakdown_cost_def get_session_report_def track_tokens_def calculate_cost_def
        MODEL_PRICING_def check_thresholds_def get_total_cost_def getenv_float_def
        unset_environ_def CostTracker_init_def py_round_def Let_def)

subsection \<open>Thresholds\<close>

text \<open>
  Claim C8, amended. When \<open>track_tokens\<close> records a call (the model has a price), the
  tracker afterwards holds the record at the end of \<open>calls\<close> in every case. The total
  that counts is the sum of the costs of all recorded calls, this one included; the
  warning threshold is the float in \<open>COST_WARNING_THRESHOLD\<close>, or 10 when the variable
  is unset, and the hard threshold the float in \<open>COST_MAX_THRESHOLD\<close>, or 50. If the
  total is at or above the hard threshold, \<open>CostLimitExceeded\<close> (an exception other
  than \<open>ValueError\<close>) is raised and nothing is printed; if it is below the hard
  threshold and at or above the warning threshold, the warning is printed and the cost
  is returned; below both, nothing is printed. But if the text of either variable is
  not a float, \<open>ValueError\<close> is raised after the call is recorded, whatever the total.
\<close>

theorem track_tokens_thresholds:
  assumes "calculate_cost p c m = Inr cst"
    and "self' = self\<lparr>calls := calls self @
           [\<lparr>timestamp = now, model = m, prompt_tokens = p, completion_tokens = c,
             total_tokens = p + c, cost = cst,
             metadata = (case md of None \<Rightarrow> [] | Some d \<Rightarrow> d)\<rparr>]\<rparr>"
    and "session_total = sum_list (map cost (calls self)) + cst"
  shows "((COST_WARNING_THRESHOLD env = Unset \<and> w = 10 \<or> COST_WARNING_THRESHOLD env = Parses w)
          \<and> (COST_MAX_THRESHOLD env = Unset \<and> mx = 50 \<or> COST_MAX_THRESHOLD env = Parses mx) \<longrightarrow>
            (mx \<le> session_total \<longrightarrow>
               track_tokens env now p c m md self = (self', [], Inl CostLimitExceeded))
          \<and> (session_total < mx \<and> w \<le> session_total \<longrightarrow>
               track_tokens env now p c m md self = (self', [Warning session_total w], Inr cst))
          \<and> (session_total < mx \<and> session_total < w \<longrightarrow>
               track_tokens env now p c m md self = (self', [], Inr cst)))
       \<and> (COST_WARNING_THRESHOLD env = Unparseable \<or> COST_MAX_THRESHOLD env = Unparseable \<longrightarrow>
            track_tokens env now p c m md self = (self', [], Inl ValueError))
       \<and> CostLimitExceeded \<noteq> ValueError"
proof -
  have t: "get_total_cost self' = session_total"
    using assms(2,3) by (simp add: get_total_cost_def)
  have run: "track_tokens env now p c m md self
      = (case check_thresholds env self' of
           Inl e \<Rightarrow> (self', [], Inl e) | Inr out \<Rightarrow> (self', out, Inr cst))"
    unfolding assms(2) using assms(1) by (simp add: track_tokens_def Let_def)
  have ok: "check_thresholds env self'
      = (if mx \<le> session_total then Inl CostLimitExceeded
         else if w \<le> session_total then Inr [Warning session_total w] else Inr [])"
    if "COST_WARNING_THRESHOLD env = Unset \<and> w = 10 \<or> COST_WARNING_THRESHOLD env = Parses w"
      and "COST_MAX_THRESHOLD env = Unset \<and> mx = 50 \<or> COST_MAX_THRESHOLD env = Parses mx"
    using that by (auto simp: check_thresholds_def getenv_float_def t Let_def)
  have bad: "check_thresholds env self' = Inl ValueError"
    if "COST_WARNING_THRESHOLD env = Unparseable \<or> COST_MAX_THRESHOLD env = Unparseable"
    using that
    by (auto simp: check_thresholds_def getenv_float_def Let_def split: setting.splits)
  show ?thesis
    using ok bad by (auto simp: run)
qed

text \<open>
  C8 with \<open>COST_WARNING_THRESHOLD=0.5\<close> and \<open>COST_MAX_THRESHOLD=1\<close>, on trackers that hold
  one earlier call. A call costing 0.6 after one costing 0.6 brings the total to 1.2 and
  is refused after it is recorded; a call costing 0.3 after one costing 0.3 brings the
  total to 0.6 and is warned about.
\<close>

theorem track_tokens_thresholds_witness:
  "track_tokens \<lparr>COST_WARNING_THRESHOLD = Parses (1 / 2), COST_MAX_THRESHOLD = Parses 1\<rparr>
       ''t2'' 20000 0 ''gpt-4'' None
       \<lparr>session_name = ''s'',
        calls = [\<lparr>timestamp = ''t1'', model = ''gpt-4'', prompt_tokens = 20000,
                  completion_tokens = 0, total_tokens = 20000, cost = 6 / 10, metadata = []\<rparr>],
        start_time = ''t0''\<rparr>
     = (\<lparr>session_name = ''s'',
         calls = [\<lparr>timestamp = ''t1'', model = ''gpt-4'', prompt_tokens = 20000,
                   completion_tokens = 0, total_tokens = 20000, cost = 6 / 10, metadata = []\<rparr>,
                  \<lparr>timestamp = ''t2'', model = ''gpt-4'', prompt_tokens = 20000,
                   completion_tokens = 0, total_tokens = 20000, cost = 6 / 10, metadata = []\<rparr>],
         start_time = ''t0''\<rparr>,
        [], Inl CostLimitExceeded)
   \<and> track_tokens \<lparr>COST_WARNING_THRESHOLD = Parses (1 / 2), COST_MAX_THRESHOLD = Parses 1\<rparr>
       ''t2'' 10000 0 ''gpt-4'' None
       \<lparr>session_name = ''s'',
        calls = [\<lparr>timestamp = ''t1'', model = ''gpt-4'', prompt_tokens = 10000,
                  completion_tokens = 0, total_tokens = 10000, cost = 3 / 10, metadata = []\<rparr>],
        start_time = ''t0''\<rparr>
     = (\<lparr>session_name = ''s'',
         calls = [\<lparr>timestamp = ''t1'', model = ''gpt-4'', prompt_tokens = 10000,
                   completion_tokens = 0, total_tokens = 10000, cost = 3 / 10, metadata = []\<rparr>,
                  \<lparr>timestamp = ''t2'', model = ''gpt-4'', prompt_tokens = 10000,
                   completion_tokens = 0, total_tokens = 10000, cost = 3 / 10, metadata = []\<rparr>],
         start_time = ''t0''\<rparr>,
        [Warning (6 / 10) (1 / 2)], Inr (3 / 10))"
proof (intro conjI)
  let ?env = "\<lparr>COST_WARNING_THRESHOLD = Parses (1 / 2), COST_MAX_THRESHOLD = Parses 1\<rparr>"
  have e: "(COST_WARNING_THRESHOLD ?env = Unset \<and> (1 / 2 :: real) = 10
            \<or> COST_WARNING_THRESHOLD ?env = Parses (1 / 2))
         \<and> (COST_MAX_THRESHOLD ?env = Unset \<and> (1 :: real) = 50
            \<or> COST_MAX_THRESHOLD ?env = Parses 1)"
    by simp
  let ?c1 = "\<lparr>timestamp = ''t1'', model = ''gpt-4'', prompt_tokens = 20000,
                  completion_tokens = 0, total_tokens = 20000, cost = 6 / 10 :: real,
                  metadata = [] :: (string \<times> string) list\<rparr>"
  let ?s1 = "\<lparr>session_name = ''s'', calls = [?c1], start_time = ''t0''\<rparr>"
  have p1: "calculate_cost 20000 0 ''gpt-4'' = Inr (6 / 10)"
    by (simp add: calculate_cost_def MODEL_PRICING_def)
  have t1: "(6 / 5 :: real) = sum_list (map cost (calls ?s1)) + 6 / 10" by simp
  note th1 = track_tokens_thresholds [where self = ?s1 and now = "''t2''" and md = None
      and env = ?env and w = "1 / 2" and mx = 1, OF p1 refl t1, THEN conjunct1, rule_format,
      OF e, THEN conjunct1, rule_format]
  have "track_tokens ?env ''t2'' 20000 0 ''gpt-4'' None ?s1
      = (?s1\<lparr>calls := calls ?s1 @
           [\<lparr>timestamp = ''t2'', model = ''gpt-4'', prompt_tokens = 20000, completion_tokens = 0,
             total_tokens = 20000 + 0, cost = 6 / 10,
             metadata = (case None of None \<Rightarrow> [] | Some d \<Rightarrow> d)\<rparr>]\<rparr>,
         [], Inl CostLimitExceeded)"
    by (rule th1) simp
  then show "track_tokens ?env ''t2'' 20000 0 ''gpt-4'' None ?s1
     = (\<lparr>session_name = ''s'',
         calls = [?c1,
                  \<lparr>timestamp = ''t2'', model = ''gpt-4'', prompt_tokens = 20000,
                   completion_tokens = 0, total_tokens = 20000, cost = 6 / 10, metadata = []\<rparr>],
         start_time = ''t0''\<rparr>,
        [], Inl CostLimitExceeded)"
    by simp
  let ?c2 = "\<lparr>timestamp = ''t1'', model = ''gpt-4'', prompt_tokens = 10000,
                  completion_tokens = 0, total_tokens = 10000, cost = 3 / 10 :: real,
                  metadata = [] :: (string \<times> string) list\<rparr>"
  let ?s2 = "\<lparr>session_name = ''s'', calls = [?c2], start_time = ''t0''\<rparr>"
  have p2: "calculate_cost 10000 0 ''gpt-4'' = Inr (3 / 10)"
    by (simp add: calculate_cost_def MODEL_PRICING_def)
  have t2: "(6 / 10 :: real) = sum_list (map cost (calls ?s2)) + 3 / 10" by simp
  note th2 = track_tokens_thresholds [where self = ?s2 and now = "''t2''" and md = None
      and env = ?env and w = "1 / 2" and mx = 1, OF p2 refl t2, THEN conjunct1, rule_format,
      OF e, THEN conjunct2, THEN conjunct1, rule_format]
  have "track_tokens ?env ''t2'' 10000 0 ''gpt-4'' None ?s2
      = (?s2\<lparr>calls := calls ?s2 @
           [\<lparr>timestamp = ''t2'', model = ''gpt-4'', prompt_tokens = 10000, completion_tokens = 0,
             total_tokens = 10000 + 0, cost = 3 / 10,
             metadata = (case None of None \<Rightarrow> [] | Some d \<Rightarrow> d)\<rparr>]\<rparr>,
         [Warning (6 / 10) (1 / 2)], Inr (3 / 10))"
    by (rule th2) simp
  then show "track_tokens ?env ''t2'' 10000 0 ''gpt-4'' None ?s2
     = (\<lparr>session_name = ''s'',
         calls = [?c2,
                  \<lparr>timestamp = ''t2'', model = ''gpt-4'', prompt_tokens = 10000,
                   completion_tokens = 0, total_tokens = 10000, cost = 3 / 10, metadata = []\<rparr>],
         start_time = ''t0''\<rparr>,
        [Warning (6 / 10) (1 / 2)], Inr (3 / 10))"
    by simp
qed

text \<open>
  Claim C8 as stated fails when a threshold variable does not hold a float. With
  \<open>COST_WARNING_THRESHOLD\<close> set to the empty string and the hard threshold at its
  default 50, a call costing 60 is recorded and then \<open>ValueError\<close> is raised, not
  \<open>CostLimitExceeded\<close>.
\<close>

theorem track_tokens_unparseable_counterexample:
  "track_tokens \<lparr>COST_WARNING_THRESHOLD = Unparseable, COST_MAX_THRESHOLD = Unset\<rparr>
       ''t1'' 2000000 0 ''gpt-4'' None (CostTracker_init None ''s'' ''t0'')
     = ((CostTracker_init None ''s'' ''t0'')\<lparr>calls :=
          [\<lparr>timestamp = ''t1'', model = ''gpt-4'', prompt_tokens = 2000000,
            completion_tokens = 0, total_tokens = 2000000, cost = 60, metadata = []\<rparr>]\<rparr>,
        [], Inl ValueError)"
  by (simp add: track_tokens_def calculate_cost_def MODEL_PRICING_def check_thresholds_def
        getenv_float_def get_total_cost_def CostTracker_init_def Let_def)

section \<open>Properties of the retry wrappers\<close>

subsection \<open>Unfolding the loop\<close>

lemma nominal_delay_Suc:
  "nominal_delay cfg (Suc k) = nominal_delay cfg k * exponential_base cfg"
  by (simp add: nominal_delay_def)

lemma nominal_delay_0: "nominal_delay cfg 0 = initial_delay cfg"
  by (simp add: nominal_delay_def)

text \<open>Attempts that fail with a retryable exception, are not the last, and whose sleep returns.\<close>

lemma attempt_loop_retry_step:
  assumes "func k = Raise e" and "retryable_exceptions cfg e" and "int k < max_retries cfg"
    and "sleep (scheduled_delay cfg rnd k) = None"
  shows "attempt_loop sleep cfg func rnd k (nominal_delay cfg k)
           \<lparr>invocations = k, nominal_delays = ns, slept = ss\<rparr>
         = attempt_loop sleep cfg func rnd (Suc k) (nominal_delay cfg (Suc k))
           \<lparr>invocations = Suc k, nominal_delays = ns @ [nominal_delay cfg k],
            slept = ss @ [scheduled_delay cfg rnd k]\<rparr>"
  using assms
  by (subst attempt_loop.simps) (simp add: scheduled_delay_def nominal_delay_Suc Let_def)

lemma attempt_loop_retries:
  assumes "\<forall>i<k. func i = Raise (exc i) \<and> retryable_exceptions cfg (exc i)
              \<and> sleep (scheduled_delay cfg rnd i) = None"
    and "int k \<le> max_retries cfg"
  shows "attempt_loop sleep cfg func rnd 0 (initial_delay cfg) no_trace
         = attempt_loop sleep cfg func rnd k (nominal_delay cfg k)
           \<lparr>invocations = k, nominal_delays = map (nominal_delay cfg) [0..<k],
            slept = map (scheduled_delay cfg rnd) [0..<k]\<rparr>"
  using assms
proof (induction k)
  case 0
  show ?case by (simp add: no_trace_def nominal_delay_0)
next
  case (Suc k)
  have "attempt_loop sleep cfg func rnd 0 (initial_delay cfg) no_trace
         = attempt_loop sleep cfg func rnd k (nominal_delay cfg k)
           \<lparr>invocations = k, nominal_delays = map (nominal_delay cfg) [0..<k],
            slept = map (scheduled_delay cfg rnd) [0..<k]\<rparr>"
    using Suc.prems by (intro Suc.IH) auto
  also have "\<dots> = attempt_loop sleep cfg func rnd (Suc k) (nominal_delay cfg (Suc k))
           \<lparr>invocations = Suc k,
            nominal_delays = map (nominal_delay cfg) [0..<k] @ [nominal_delay cfg k],
            slept = map (scheduled_delay cfg rnd) [0..<k] @ [scheduled_delay cfg rnd k]\<rparr>"
    using Suc.prems by (intro attempt_loop_retry_step [where e = "exc k"]) auto
  finally show ?case by simp
qed

lemma attempt_loop_last_failure:
  assumes "func k = Raise e" and "retryable_exceptions cfg e" and "int k = max_retries cfg"
  shows "attempt_loop sleep cfg func rnd k d \<lparr>invocations = k, nominal_delays = ns, slept = ss\<rparr>
         = (Inl (FromFunc e), \<lparr>invocations = Suc k, nominal_delays = ns, slept = ss\<rparr>)"
  using assms by (subst attempt_loop.simps) simp

lemma attempt_loop_success:
  assumes "func k = Return v" and "int k \<le> max_retries cfg"
  shows "attempt_loop sleep cfg func rnd k d \<lparr>invocations = k, nominal_delays = ns, slept = ss\<rparr>
         = (Inr (Some v), \<lparr>invocations = Suc k, nominal_delays = ns, slept = ss\<rparr>)"
  using assms by (subst attempt_loop.simps) simp

lemma all_fail_run:
  assumes "\<forall>i \<le> r. func i = Raise (exc i) \<and> retryable_exceptions cfg (exc i)"
    and "\<forall>i < r. sleep (scheduled_delay cfg rnd i) = None"
    and "int r = max_retries cfg"
  shows "attempt_loop sleep cfg func rnd 0 (initial_delay cfg) no_trace
         = (Inl (FromFunc (exc r)),
            \<lparr>invocations = r + 1, nominal_delays = map (nominal_delay cfg) [0..<r],
             slept = map (scheduled_delay cfg rnd) [0..<r]\<rparr>)"
proof -
  have "attempt_loop sleep cfg func rnd 0 (initial_delay cfg) no_trace
         = attempt_loop sleep cfg func rnd r (nominal_delay cfg r)
           \<lparr>invocations = r, nominal_delays = map (nominal_delay cfg) [0..<r],
            slept = map (scheduled_delay cfg rnd) [0..<r]\<rparr>"
    using assms by (intro attempt_loop_retries [where exc = exc]) auto
  also have "\<dots> = (Inl (FromFunc (exc r)),
            \<lparr>invocations = Suc r, nominal_delays = map (nominal_delay cfg) [0..<r],
             slept = map (scheduled_delay cfg rnd) [0..<r]\<rparr>)"
    using assms by (intro attempt_loop_last_failure) auto
  finally show ?thesis by simp
qed

lemma success_run:
  assumes "\<forall>i < j. func i = Raise (exc i) \<and> retryable_exceptions cfg (exc i)"
    and "\<forall>i < j. sleep (scheduled_delay cfg rnd i) = None"
    and "func j = Return v" and "int j \<le> max_retries cfg"
  shows "attempt_loop sleep cfg func rnd 0 (initial_delay cfg) no_trace
         = (Inr (Some v),
            \<lparr>invocations = j + 1, nominal_delays = map (nominal_delay cfg) [0..<j],
             slept = map (scheduled_delay cfg rnd) [0..<j]\<rparr>)"
proof -
  have "attempt_loop sleep cfg func rnd 0 (initial_delay cfg) no_trace
         = attempt_loop sleep cfg func rnd j (nominal_delay cfg j)
           \<lparr>invocations = j, nominal_delays = map (nominal_delay cfg) [0..<j],
            slept = map (scheduled_delay cfg rnd) [0..<j]\<rparr>"
    using assms by (intro attempt_loop_retries [where exc = exc]) auto
  also have "\<dots> = (Inr (Some v),
            \<lparr>invocations = Suc j, nominal_delays = map (nominal_delay cfg) [0..<j],
             slept = map (scheduled_delay cfg rnd) [0..<j]\<rparr>)"
    using assms by (intro attempt_loop_success) auto
  finally show ?thesis by simp
qed

subsection \<open>Number of invocations\<close>

text \<open>
  The delays that \<open>time.sleep\<close> accepts, and a range of delays inside them: up to
  4294967 seconds, about 49 days.
\<close>

lemma time_sleep_accepts:
  "time_sleep secs = None \<longleftrightarrow> 0 \<le> secs \<and> secs \<le> 9223372036854775807 / 1000000000"
  by (auto simp: time_sleep_def Let_def)

lemma time_sleep_short: "0 \<le> secs \<and> secs \<le> 4294967 \<Longrightarrow> time_sleep secs = None"
  by (simp add: time_sleep_accepts)

text \<open>
  Claim C2, amended. Let \<open>max_retries = r \<ge> 0\<close>. If every attempt fails with a
  retryable exception, the wrapped function is invoked exactly \<open>r + 1\<close> times and the
  wrapper re-raises the exception of the last attempt; if the function first succeeds
  at its invocation number \<open>j + 1 \<le> r + 1\<close>, after retryable failures, it is invoked
  exactly \<open>j + 1\<close> times and the wrapper returns that result. For \<open>retry_with_backoff\<close>
  this holds provided no delay handed to \<open>time.sleep\<close> is negative or longer than
  4294967 seconds; for \<open>async_retry_with_backoff\<close> it holds for every configuration.
\<close>

theorem retry_attempt_count:
  assumes "0 \<le> max_retries cfg"
  shows
   "((\<forall>i \<le> nat (max_retries cfg). func i = Raise (exc i) \<and> retryable_exceptions cfg (exc i))
       \<and> (\<forall>i < nat (max_retries cfg). 0 \<le> scheduled_delay cfg rnd i
            \<and> scheduled_delay cfg rnd i \<le> 4294967) \<longrightarrow>
      fst (retry_with_backoff cfg func rnd) = Inl (FromFunc (exc (nat (max_retries cfg))))
      \<and> invocations (snd (retry_with_backoff cfg func rnd)) = nat (max_retries cfg) + 1)
    \<and> ((\<forall>i \<le> nat (max_retries cfg). func i = Raise (exc i) \<and> retryable_exceptions cfg (exc i)) \<longrightarrow>
      fst (async_retry_with_backoff cfg func rnd) = Inl (FromFunc (exc (nat (max_retries cfg))))
      \<and> invocations (snd (async_retry_with_backoff cfg func rnd)) = nat (max_retries cfg) + 1)
    \<and> ((\<forall>i < j. func i = Raise (exc i) \<and> retryable_exceptions cfg (exc i))
       \<and> (\<forall>i < j. 0 \<le> scheduled_delay cfg rnd i
            \<and> scheduled_delay cfg rnd i \<le> 4294967)
       \<and> func j = Return v \<and> int j \<le> max_retries cfg \<longrightarrow>
      fst (retry_with_backoff cfg func rnd) = Inr (Some v)
      \<and> invocations (snd (retry_with_backoff cfg func rnd)) = j + 1)
    \<and> ((\<forall>i < j. func i = Raise (exc i) \<and> retryable_exceptions cfg (exc i))
       \<and> func j = Return v \<and> int j \<le> max_retries cfg \<longrightarrow>
      fst (async_retry_with_backoff cfg func rnd) = Inr (Some v)
      \<and> invocations (snd (async_retry_with_backoff cfg func rnd)) = j + 1)"
proof -
  let ?r = "nat (max_retries cfg)"
  have r: "int ?r = max_retries cfg" using assms by simp
  have sync_fail: "retry_with_backoff cfg func rnd
         = (Inl (FromFunc (exc ?r)),
            \<lparr>invocations = ?r + 1, nominal_delays = map (nominal_delay cfg) [0..<?r],
             slept = map (scheduled_delay cfg rnd) [0..<?r]\<rparr>)"
    if a: "\<forall>i \<le> ?r. func i = Raise (exc i) \<and> retryable_exceptions cfg (exc i)"
      and b: "\<forall>i < ?r. 0 \<le> scheduled_delay cfg rnd i
            \<and> scheduled_delay cfg rnd i \<le> 4294967"
  proof -
    from b have "\<forall>i < ?r. time_sleep (scheduled_delay cfg rnd i) = None"
      by (simp add: time_sleep_short)
    with a r show ?thesis
      unfolding retry_with_backoff_def by (intro all_fail_run) blast+
  qed
  have async_fail: "async_retry_with_backoff cfg func rnd
         = (Inl (FromFunc (exc ?r)),
            \<lparr>invocations = ?r + 1, nominal_delays = map (nominal_delay cfg) [0..<?r],
             slept = map (scheduled_delay cfg rnd) [0..<?r]\<rparr>)"
    if a: "\<forall>i \<le> ?r. func i = Raise (exc i) \<and> retryable_exceptions cfg (exc i)"
  proof -
    have "\<forall>i < ?r. asyncio_sleep (scheduled_delay cfg rnd i) = None"
      by (simp add: asyncio_sleep_def)
    with a r show ?thesis
      unfolding async_retry_with_backoff_def by (intro all_fail_run) blast+
  qed
  have sync_ok: "retry_with_backoff cfg func rnd
         = (Inr (Some v),
            \<lparr>invocations = j + 1, nominal_delays = map (nominal_delay cfg) [0..<j],
             slept = map (scheduled_delay cfg rnd) [0..<j]\<rparr>)"
    if a: "\<forall>i < j. func i = Raise (exc i) \<and> retryable_exceptions cfg (exc i)"
      and b: "\<forall>i < j. 0 \<le> scheduled_delay cfg rnd i
            \<and> scheduled_delay cfg rnd i \<le> 4294967"
      and c: "func j = Return v" "int j \<le> max_retries cfg"
  proof -
    from b have "\<forall>i < j. time_sleep (scheduled_delay cfg rnd i) = None"
      by (simp add: time_sleep_short)
    with a c show ?thesis
      unfolding retry_with_backoff_def by (intro success_run [where exc = exc]) blast+
  qed
  have async_ok: "async_retry_with_backoff cfg func rnd
         = (Inr (Some v),
            \<lparr>invocations = j + 1, nominal_delays = map (nominal_delay cfg) [0..<j],
             slept = map (scheduled_delay cfg rnd) [0..<j]\<rparr>)"
    if a: "\<forall>i < j. func i = Raise (exc i) \<and> retryable_exceptions cfg (exc i)"
      and c: "func j = Return v" "int j \<le> max_retries cfg"
  proof -
    have "\<forall>i < j. asyncio_sleep (scheduled_delay cfg rnd i) = None"
      by (simp add: asyncio_sleep_def)
    with a c show ?thesis
      unfolding async_retry_with_backoff_def by (intro success_run [where exc = exc]) blast+
  qed
  show ?thesis
  proof (intro conjI impI; (elim conjE)?)
    assume a: "\<forall>i \<le> ?r. func i = Raise (exc i) \<and> retryable_exceptions cfg (exc i)"
      and b: "\<forall>i < ?r. 0 \<le> scheduled_delay cfg rnd i
            \<and> scheduled_delay cfg rnd i \<le> 4294967"
    show "fst (retry_with_backoff cfg func rnd) = Inl (FromFunc (exc ?r))"
      by (simp add: sync_fail [OF a b])
    show "invocations (snd (retry_with_backoff cfg func rnd)) = ?r + 1"
      by (simp add: sync_fail [OF a b])
  next
    assume a: "\<forall>i \<le> ?r. func i = Raise (exc i) \<and> retryable_exceptions cfg (exc i)"
    show "fst (async_retry_with_backoff cfg func rnd) = Inl (FromFunc (exc ?r))"
      by (simp add: async_fail [OF a])
    show "invocations (snd (async_retry_with_backoff cfg func rnd)) = ?r + 1"
      by (simp add: async_fail [OF a])
  next
    assume a: "\<forall>i < j. func i = Raise (exc i) \<and> retryable_exceptions cfg (exc i)"
      and b: "\<forall>i < j. 0 \<le> scheduled_delay cfg rnd i
            \<and> scheduled_delay cfg rnd i \<le> 4294967"
      and c: "func j = Return v" "int j \<le> max_retries cfg"
    show "fst (retry_with_backoff cfg func rnd) = Inr (Some v)"
      by (simp add: sync_ok [OF a b c])
    show "invocations (snd (retry_with_backoff cfg func rnd)) = j + 1"
      by (simp add: sync_ok [OF a b c])
  next
    assume a: "\<forall>i < j. func i = Raise (exc i) \<and> retryable_exceptions cfg (exc i)"
      and c: "func j = Return v" "int j \<le> max_retries cfg"
    show "fst (async_retry_with_backoff cfg func rnd) = Inr (Some v)"
      by (simp add: async_ok [OF a c])
    show "invocations (snd (async_retry_with_backoff cfg func rnd)) = j + 1"
      by (simp add: async_ok [OF a c])
  qed
qed

text \<open>C2 at \<open>demo_config\<close>: three failing attempts, and a success at the second attempt.\<close>

theorem retry_attempt_count_witness:
  "fst (retry_with_backoff demo_config (\<lambda>k. (Raise ''boom'' :: (nat, string) outcome)) (\<lambda>k. 1 / 4))
     = Inl (FromFunc ''boom'')
   \<and> invocations (snd (retry_with_backoff demo_config
        (\<lambda>k. (Raise ''boom'' :: (nat, string) outcome)) (\<lambda>k. 1 / 4))) = 3
   \<and> fst (async_retry_with_backoff demo_config
        (\<lambda>k. if k < 1 then Raise ''boom'' else Return (7::nat)) (\<lambda>k. 1 / 4)) = Inr (Some 7)
   \<and> invocations (snd (async_retry_with_backoff demo_config
        (\<lambda>k. if k < 1 then Raise ''boom'' else Return (7::nat)) (\<lambda>k. 1 / 4))) = 2"
proof -
  let ?fail = "\<lambda>k::nat. (Raise ''boom'' :: (nat, string) outcome)"
  let ?flaky = "\<lambda>k::nat. if k < 1 then Raise ''boom'' else (Return 7 :: (nat, string) outcome)"
  let ?rnd = "\<lambda>k::nat. 1 / 4 :: real"
  have r: "0 \<le> max_retries demo_config" by (simp add: demo_config_def)
  have n: "nat (max_retries demo_config) = 2" by (simp add: demo_config_def)
  have d: "\<forall>i < nat (max_retries demo_config). 0 \<le> scheduled_delay demo_config ?rnd i
      \<and> scheduled_delay demo_config ?rnd i \<le> 4294967"
  proof (intro allI impI conjI)
    fix i :: nat
    show "0 \<le> scheduled_delay demo_config ?rnd i"
      by (simp add: scheduled_delay_def actual_delay_def nominal_delay_def jitter_factor_def
            demo_config_def)
    have "scheduled_delay demo_config ?rnd i \<le> 60"
      by (simp add: scheduled_delay_def actual_delay_def demo_config_def)
    then show "scheduled_delay demo_config ?rnd i \<le> 4294967"
      by simp
  qed
  have f: "\<forall>i \<le> nat (max_retries demo_config).
      ?fail i = Raise ''boom'' \<and> retryable_exceptions demo_config ''boom''"
    by (simp add: demo_config_def)
  have g: "\<forall>i < 1. ?flaky i = Raise ''boom'' \<and> retryable_exceptions demo_config ''boom''"
    by (simp add: demo_config_def)
  have h: "?flaky 1 = Return 7" "int 1 \<le> max_retries demo_config"
    by (simp_all add: demo_config_def)
  note sync = retry_attempt_count [OF r, where func = ?fail and exc = "\<lambda>k. ''boom''" and rnd = ?rnd,
      THEN conjunct1, rule_format]
  note async = retry_attempt_count [OF r, where func = ?flaky and exc = "\<lambda>k. ''boom''"
      and rnd = ?rnd and j = 1 and v = 7, THEN conjunct2, THEN conjunct2, THEN conjunct2, rule_format]
  have 1: "fst (retry_with_backoff demo_config ?fail ?rnd) = Inl (FromFunc ''boom'')
     \<and> invocations (snd (retry_with_backoff demo_config ?fail ?rnd)) = nat (max_retries demo_config) + 1"
    using f d by (intro sync) blast
  have 2: "fst (async_retry_with_backoff demo_config ?flaky ?rnd) = Inr (Some 7)
     \<and> invocations (snd (async_retry_with_backoff demo_config ?flaky ?rnd)) = 1 + 1"
    using g h by (intro async) blast
  from 1 2 n show ?thesis by simp
qed

text \<open>
  Claim C2 as stated fails for \<open>retry_with_backoff\<close> at delays that \<open>time.sleep\<close>
  rejects. With a negative \<open>max_delay\<close> the capped delay is negative and \<open>time.sleep\<close>
  raises \<open>ValueError\<close> after the first failure; with \<open>initial_delay = max_delay = 1e10\<close>,
  base 1 and no jitter the delay is beyond its range and it raises \<open>OverflowError\<close>. In
  both runs the function has been invoked once, not \<open>max_retries + 1 = 3\<close> times, and
  the exception that leaves the wrapper is not the function's.
\<close>

theorem retry_negative_delay_counterexample:
  "retry_with_backoff (demo_config\<lparr>max_delay := - 1\<rparr>)
       (\<lambda>k. (Raise ''boom'' :: (nat, string) outcome)) (\<lambda>k. 1 / 4)
     = (Inl (FromSleep ValueError), \<lparr>invocations = 1, nominal_delays = [1], slept = []\<rparr>)
   \<and> retry_with_backoff
       (demo_config\<lparr>initial_delay := 10000000000, max_delay := 10000000000,
          exponential_base := 1, jitter := False\<rparr>)
       (\<lambda>k. (Raise ''boom'' :: (nat, string) outcome)) (\<lambda>k. 1 / 4)
     = (Inl (FromSleep OverflowError),
        \<lparr>invocations = 1, nominal_delays = [10000000000], slept = []\<rparr>)"
  by (simp add: retry_with_backoff_def demo_config_def no_trace_def time_sleep_def
        actual_delay_def jitter_factor_def attempt_loop.simps)

text \<open>
  Claim C10. For \<open>max_retries < 0\<close> the loop body never runs: both wrappers return
  \<open>None\<close> without invoking the wrapped function, without sleeping and without
  raising.
\<close>

theorem retry_negative_max_retries:
  "max_retries cfg < 0 \<Longrightarrow>
     retry_with_backoff cfg func rnd = (Inr None, no_trace)
     \<and> async_retry_with_backoff cfg func rnd = (Inr None, no_trace)
     \<and> invocations no_trace = 0"
  by (simp add: retry_with_backoff_def async_retry_with_backoff_def attempt_loop.simps
        no_trace_def)

text \<open>C10 at \<open>max_retries = -1\<close> and \<open>max_retries = -3\<close>.\<close>

theorem retry_negative_max_retries_witness:
  "retry_with_backoff (demo_config\<lparr>max_retries := - 1\<rparr>)
       (\<lambda>k. (Raise ''boom'' :: (nat, string) outcome)) (\<lambda>k. 1 / 4) = (Inr None, no_trace)
   \<and> async_retry_with_backoff (demo_config\<lparr>max_retries := - 3\<rparr>)
       (\<lambda>k. (Return 5 :: (nat, string) outcome)) (\<lambda>k. 1 / 4) = (Inr None, no_trace)"
  using retry_negative_max_retries [of "demo_config\<lparr>max_retries := - 1\<rparr>"
      "\<lambda>k. (Raise ''boom'' :: (nat, string) outcome)" "\<lambda>k. 1 / 4"]
    retry_negative_max_retries [of "demo_config\<lparr>max_retries := - 3\<rparr>"
      "\<lambda>k. (Return 5 :: (nat, string) outcome)" "\<lambda>k. 1 / 4"]
  by (simp add: demo_config_def)

subsection \<open>The delays of a run\<close>

text \<open>The delays recorded by any run, whatever the wrapped function does.\<close>

lemma attempt_loop_trace:
  assumes "attempt_loop sleep cfg func rnd a delay tr = (res, tr')"
    and "delay = nominal_delay cfg a"
    and "nominal_delays tr = map (nominal_delay cfg) [0..<a]"
    and "slept tr = map (scheduled_delay cfg rnd) [0..<a]"
  shows "nominal_delays tr' = map (nominal_delay cfg) [0..<length (nominal_delays tr')]
       \<and> slept tr' = map (scheduled_delay cfg rnd) [0..<length (slept tr')]
       \<and> length (slept tr') \<le> length (nominal_delays tr')"
  using assms
proof (induction sleep cfg func rnd a delay tr rule: attempt_loop.induct)
  case (1 sleep cfg func rnd attempt delay tr)
  note run = "1.prems"(1)
  note inv = "1.prems"(2-4)
  have here: "nominal_delays tr = map (nominal_delay cfg) [0..<length (nominal_delays tr)]
       \<and> slept tr = map (scheduled_delay cfg rnd) [0..<length (slept tr)]
       \<and> length (slept tr) \<le> length (nominal_delays tr)"
    using inv by simp
  show ?case
  proof (cases "int attempt < max_retries cfg + 1")
    case False
    with run have "tr' = tr" by (simp add: attempt_loop.simps)
    with here show ?thesis by simp
  next
    case True
    note in_range = this
    show ?thesis
    proof (cases "func (invocations tr)")
      case (Return v)
      with run in_range have "tr' = tr\<lparr>invocations := invocations tr + 1\<rparr>"
        by (simp add: attempt_loop.simps)
      with here show ?thesis by simp
    next
      case (Raise e)
      show ?thesis
      proof (cases "\<not> retryable_exceptions cfg e \<or> int attempt = max_retries cfg")
        case True
        with run in_range Raise have "tr' = tr\<lparr>invocations := invocations tr + 1\<rparr>"
          by (auto simp: attempt_loop.simps Let_def split: if_splits)
        with here show ?thesis by simp
      next
        case False
        then have retry: "retryable_exceptions cfg e" "int attempt \<noteq> max_retries cfg" by auto
        let ?d = "actual_delay cfg delay (rnd attempt)"
        let ?tr1 = "tr\<lparr>invocations := invocations tr + 1\<rparr>"
        let ?tr2 = "?tr1\<lparr>nominal_delays := nominal_delays ?tr1 @ [delay]\<rparr>"
        have d: "?d = scheduled_delay cfg rnd attempt"
          using inv(1) by (simp add: scheduled_delay_def)
        show ?thesis
        proof (cases "sleep ?d")
          case (Some err)
          with run in_range Raise retry have "tr' = ?tr2"
            by (simp add: attempt_loop.simps Let_def)
          with inv show ?thesis by simp
        next
          case None
          let ?tr3 = "?tr2\<lparr>slept := slept ?tr2 @ [?d]\<rparr>"
          from run in_range Raise retry None
          have rec: "attempt_loop sleep cfg func rnd (attempt + 1)
                       (delay * exponential_base cfg) ?tr3 = (res, tr')"
            by (subst (asm) attempt_loop.simps) (simp add: Let_def)
          show ?thesis
          proof (rule "1.IH" [OF in_range refl Raise _ _ refl refl None rec])
            show "\<not> \<not> retryable_exceptions cfg e" using retry by simp
            show "int attempt \<noteq> max_retries cfg" using retry by simp
            show "delay * exponential_base cfg = nominal_delay cfg (attempt + 1)"
              using inv(1) by (simp add: nominal_delay_Suc)
            show "nominal_delays ?tr3 = map (nominal_delay cfg) [0..<attempt + 1]"
              using inv by simp
            show "slept ?tr3 = map (scheduled_delay cfg rnd) [0..<attempt + 1]"
              using inv d by simp
          qed
        qed
      qed
    qed
  qed
qed

lemma run_trace:
  assumes "attempt_loop sleep cfg func rnd 0 (initial_delay cfg) no_trace = (res, tr')"
  shows "nominal_delays tr' = map (nominal_delay cfg) [0..<length (nominal_delays tr')]
       \<and> slept tr' = map (scheduled_delay cfg rnd) [0..<length (slept tr')]
       \<and> length (slept tr') \<le> length (nominal_delays tr')"
  using assms by (rule attempt_loop_trace) (simp_all add: nominal_delay_0 no_trace_def)

lemma scheduled_delay_le: "scheduled_delay cfg rnd k \<le> max_delay cfg"
  by (simp add: scheduled_delay_def actual_delay_def Let_def)

lemma nominal_delay_mono:
  assumes "0 \<le> initial_delay cfg" and "1 \<le> exponential_base cfg" and "i \<le> j"
  shows "nominal_delay cfg i \<le> nominal_delay cfg j"
  unfolding nominal_delay_def using assms
  by (intro mult_left_mono power_increasing)

lemma sorted_nominal:
  assumes "0 \<le> initial_delay cfg" and "1 \<le> exponential_base cfg"
  shows "sorted (map (nominal_delay cfg) [0..<n])"
  using assms by (auto simp: sorted_iff_nth_mono intro: nominal_delay_mono)

lemma trace_bounds:
  assumes "attempt_loop sleep cfg func rnd 0 (initial_delay cfg) no_trace = (res, tr')"
  shows "(\<forall>d \<in> set (slept tr'). d \<le> max_delay cfg)
       \<and> nominal_delays tr' = map (nominal_delay cfg) [0..<length (nominal_delays tr')]
       \<and> (0 \<le> initial_delay cfg \<and> 1 \<le> exponential_base cfg \<longrightarrow> sorted (nominal_delays tr'))"
proof -
  note t = run_trace [OF assms]
  have "\<forall>d \<in> set (map (scheduled_delay cfg rnd) [0..<length (slept tr')]). d \<le> max_delay cfg"
    by (simp add: scheduled_delay_le)
  then have 1: "\<forall>d \<in> set (slept tr'). d \<le> max_delay cfg" using t by simp
  have 2: "sorted (nominal_delays tr')" if "0 \<le> initial_delay cfg" "1 \<le> exponential_base cfg"
    using sorted_nominal [OF that, of "length (nominal_delays tr')"] t by simp
  from 1 2 t show ?thesis by blast
qed

text \<open>
  Claim C4, amended. In every run of either wrapper each delay slept is at most
  \<open>max_delay\<close>, and the nominal delays are \<open>initial_delay * exponential_base ^ k\<close> for
  \<open>k = 0, 1, ...\<close>; this sequence is non-decreasing when \<open>initial_delay \<ge> 0\<close> and
  \<open>exponential_base \<ge> 1\<close>.
\<close>

theorem backoff_delays:
  "(\<forall>d \<in> set (slept (snd (retry_with_backoff cfg func rnd))). d \<le> max_delay cfg)
   \<and> (\<forall>d \<in> set (slept (snd (async_retry_with_backoff cfg func rnd))). d \<le> max_delay cfg)
   \<and> nominal_delays (snd (retry_with_backoff cfg func rnd))
       = map (\<lambda>k. initial_delay cfg * exponential_base cfg ^ k)
           [0..<length (nominal_delays (snd (retry_with_backoff cfg func rnd)))]
   \<and> nominal_delays (snd (async_retry_with_backoff cfg func rnd))
       = map (\<lambda>k. initial_delay cfg * exponential_base cfg ^ k)
           [0..<length (nominal_delays (snd (async_retry_with_backoff cfg func rnd)))]
   \<and> (0 \<le> initial_delay cfg \<and> 1 \<le> exponential_base cfg \<longrightarrow>
        sorted (nominal_delays (snd (retry_with_backoff cfg func rnd)))
        \<and> sorted (nominal_delays (snd (async_retry_with_backoff cfg func rnd))))"
proof -
  have n: "nominal_delay cfg = (\<lambda>k. initial_delay cfg * exponential_base cfg ^ k)"
    by (rule ext) (simp add: nominal_delay_def)
  have s: "attempt_loop time_sleep cfg func rnd 0 (initial_delay cfg) no_trace
      = (fst (retry_with_backoff cfg func rnd), snd (retry_with_backoff cfg func rnd))"
    by (simp add: retry_with_backoff_def)
  have a: "attempt_loop asyncio_sleep cfg func rnd 0 (initial_delay cfg) no_trace
      = (fst (async_retry_with_backoff cfg func rnd), snd (async_retry_with_backoff cfg func rnd))"
    by (simp add: async_retry_with_backoff_def)
  from trace_bounds [OF s] trace_bounds [OF a] show ?thesis
    unfolding n by blast
qed

text \<open>C4 at \<open>demo_config\<close>.\<close>

theorem backoff_delays_witness:
  "slept (snd (retry_with_backoff demo_config
       (\<lambda>k. (Raise ''boom'' :: (nat, string) outcome)) (\<lambda>k. 1 / 4))) = [3 / 4, 3 / 2]
   \<and> nominal_delays (snd (retry_with_backoff demo_config
       (\<lambda>k. (Raise ''boom'' :: (nat, string) outcome)) (\<lambda>k. 1 / 4))) = [1, 2]
   \<and> sorted (nominal_delays (snd (retry_with_backoff demo_config
       (\<lambda>k. (Raise ''boom'' :: (nat, string) outcome)) (\<lambda>k. 1 / 4))))"
proof -
  let ?run = "retry_with_backoff demo_config
       (\<lambda>k. (Raise ''boom'' :: (nat, string) outcome)) (\<lambda>k. 1 / 4)"
  have c: "0 \<le> initial_delay demo_config \<and> 1 \<le> exponential_base demo_config"
    by (simp add: demo_config_def)
  have "sorted (nominal_delays (snd ?run))"
    using backoff_delays [of demo_config "\<lambda>k. (Raise ''boom'' :: (nat, string) outcome)"
        "\<lambda>k. 1 / 4"] c by blast
  moreover have "?run = (Inl (FromFunc ''boom''),
      \<lparr>invocations = 3, nominal_delays = [1, 2], slept = [3 / 4, 3 / 2]\<rparr>)"
    by (simp add: retry_with_backoff_def demo_config_def no_trace_def time_sleep_def
        actual_delay_def jitter_factor_def attempt_loop.simps)
  ultimately show ?thesis by simp
qed

text \<open>
  Claim C4 as stated fails for a base below 1: with \<open>initial_delay = 2\<close> and
  \<open>exponential_base = 0.5\<close> the nominal delays are 2, then 1.
\<close>

theorem backoff_shrinking_counterexample:
  "nominal_delays (snd (retry_with_backoff
       (demo_config\<lparr>initial_delay := 2, exponential_base := 1 / 2, jitter := False\<rparr>)
       (\<lambda>k. (Raise ''boom'' :: (nat, string) outcome)) (\<lambda>k. 1 / 4))) = [2, 1]
   \<and> \<not> sorted (nominal_delays (snd (retry_with_backoff
       (demo_config\<lparr>initial_delay := 2, exponential_base := 1 / 2, jitter := False\<rparr>)
       (\<lambda>k. (Raise ''boom'' :: (nat, string) outcome)) (\<lambda>k. 1 / 4))))"
proof -
  have run: "retry_with_backoff
       (demo_config\<lparr>initial_delay := 2, exponential_base := 1 / 2, jitter := False\<rparr>)
       (\<lambda>k. (Raise ''boom'' :: (nat, string) outcome)) (\<lambda>k. 1 / 4)
     = (Inl (FromFunc ''boom''),
        \<lparr>invocations = 3, nominal_delays = [2, 1], slept = [2, 1]\<rparr>)"
    by (simp add: retry_with_backoff_def demo_config_def no_trace_def time_sleep_def
        actual_delay_def jitter_factor_def attempt_loop.simps)
  show ?thesis unfolding run by simp
qed

text \<open>
  Claim C3, amended. With jitter enabled and every random draw in \<open>[0, 1)\<close>, each
  delay slept is the nominal delay of that retry multiplied by the jitter factor
  \<open>0.5 + u\<close>, capped at \<open>max_delay\<close>, and the factor lies in \<open>[0.5, 1.5)\<close>.
\<close>

theorem jitter_range:
  "jitter cfg \<and> (\<forall>k. 0 \<le> rnd k \<and> rnd k < 1) \<longrightarrow>
     (\<forall>k < length (slept (snd (retry_with_backoff cfg func rnd))).
         slept (snd (retry_with_backoff cfg func rnd)) ! k
           = min (nominal_delays (snd (retry_with_backoff cfg func rnd)) ! k * jitter_factor (rnd k))
                 (max_delay cfg)
         \<and> 1 / 2 \<le> jitter_factor (rnd k) \<and> jitter_factor (rnd k) < 3 / 2)
     \<and> (\<forall>k < length (slept (snd (async_retry_with_backoff cfg func rnd))).
         slept (snd (async_retry_with_backoff cfg func rnd)) ! k
           = min (nominal_delays (snd (async_retry_with_backoff cfg func rnd)) ! k
                    * jitter_factor (rnd k))
                 (max_delay cfg)
         \<and> 1 / 2 \<le> jitter_factor (rnd k) \<and> jitter_factor (rnd k) < 3 / 2)"
proof (intro impI, elim conjE)
  assume j: "jitter cfg" and u: "\<forall>k. 0 \<le> rnd k \<and> rnd k < 1"
  have jf: "1 / 2 \<le> jitter_factor (rnd k) \<and> jitter_factor (rnd k) < 3 / 2" for k
    using u [rule_format, of k] by (simp add: jitter_factor_def)
  have gen: "\<forall>k < length (slept tr').
         slept tr' ! k = min (nominal_delays tr' ! k * jitter_factor (rnd k)) (max_delay cfg)
         \<and> 1 / 2 \<le> jitter_factor (rnd k) \<and> jitter_factor (rnd k) < 3 / 2"
    if run: "attempt_loop sleep cfg func rnd 0 (initial_delay cfg) no_trace = (res, tr')"
    for sleep res tr'
  proof (intro allI impI)
    fix k assume k: "k < length (slept tr')"
    note t = run_trace [OF run]
    from t k have k': "k < length (nominal_delays tr')" by simp
    have "slept tr' ! k = map (scheduled_delay cfg rnd) [0..<length (slept tr')] ! k"
      using t by simp
    also have "\<dots> = scheduled_delay cfg rnd k" using k by simp
    also have "\<dots> = min (nominal_delay cfg k * jitter_factor (rnd k)) (max_delay cfg)"
      using j by (simp add: scheduled_delay_def actual_delay_def)
    also have "nominal_delay cfg k = map (nominal_delay cfg) [0..<length (nominal_delays tr')] ! k"
      using k' by simp
    also have "\<dots> = nominal_delays tr' ! k" using t by simp
    finally show "slept tr' ! k = min (nominal_delays tr' ! k * jitter_factor (rnd k)) (max_delay cfg)
         \<and> 1 / 2 \<le> jitter_factor (rnd k) \<and> jitter_factor (rnd k) < 3 / 2"
      using jf by simp
  qed
  have s: "attempt_loop time_sleep cfg func rnd 0 (initial_delay cfg) no_trace
      = (fst (retry_with_backoff cfg func rnd), snd (retry_with_backoff cfg func rnd))"
    by (simp add: retry_with_backoff_def)
  have a: "attempt_loop asyncio_sleep cfg func rnd 0 (initial_delay cfg) no_trace
      = (fst (async_retry_with_backoff cfg func rnd), snd (async_retry_with_backoff cfg func rnd))"
    by (simp add: async_retry_with_backoff_def)
  from gen [OF s] gen [OF a]
  show "(\<forall>k < length (slept (snd (retry_with_backoff cfg func rnd))).
         slept (snd (retry_with_backoff cfg func rnd)) ! k
           = min (nominal_delays (snd (retry_with_backoff cfg func rnd)) ! k * jitter_factor (rnd k))
                 (max_delay cfg)
         \<and> 1 / 2 \<le> jitter_factor (rnd k) \<and> jitter_factor (rnd k) < 3 / 2)
     \<and> (\<forall>k < length (slept (snd (async_retry_with_backoff cfg func rnd))).
         slept (snd (async_retry_with_backoff cfg func rnd)) ! k
           = min (nominal_delays (snd (async_retry_with_backoff cfg func rnd)) ! k
                    * jitter_factor (rnd k))
                 (max_delay cfg)
         \<and> 1 / 2 \<le> jitter_factor (rnd k) \<and> jitter_factor (rnd k) < 3 / 2)"
    by (intro conjI)
qed

text \<open>C3 at \<open>demo_config\<close> with every draw 0.25.\<close>

theorem jitter_range_witness:
  "slept (snd (retry_with_backoff demo_config
       (\<lambda>k. (Raise ''boom'' :: (nat, string) outcome)) (\<lambda>k. 1 / 4))) ! 1
     = min (nominal_delays (snd (retry_with_backoff demo_config
              (\<lambda>k. (Raise ''boom'' :: (nat, string) outcome)) (\<lambda>k. 1 / 4))) ! 1
            * jitter_factor (1 / 4)) (max_delay demo_config)
   \<and> 1 / 2 \<le> jitter_factor (1 / 4) \<and> jitter_factor (1 / 4) < 3 / 2
   \<and> slept (snd (retry_with_backoff demo_config
       (\<lambda>k. (Raise ''boom'' :: (nat, string) outcome)) (\<lambda>k. 1 / 4))) = [3 / 4, 3 / 2]"
proof -
  let ?run = "retry_with_backoff demo_config
       (\<lambda>k. (Raise ''boom'' :: (nat, string) outcome)) (\<lambda>k. 1 / 4)"
  have run: "?run = (Inl (FromFunc ''boom''),
      \<lparr>invocations = 3, nominal_delays = [1, 2], slept = [3 / 4, 3 / 2]\<rparr>)"
    by (simp add: retry_with_backoff_def demo_config_def no_trace_def time_sleep_def
        actual_delay_def jitter_factor_def attempt_loop.simps)
  have h: "jitter demo_config \<and> (\<forall>k::nat. 0 \<le> (1 / 4 :: real) \<and> (1 / 4 :: real) < 1)"
    by (simp add: demo_config_def)
  have l: "1 < length (slept (snd ?run))" by (simp add: run)
  from jitter_range [of demo_config "\<lambda>k. 1 / 4" "\<lambda>k. (Raise ''boom'' :: (nat, string) outcome)"] h l
  have "slept (snd ?run) ! 1
     = min (nominal_delays (snd ?run) ! 1 * jitter_factor (1 / 4)) (max_delay demo_config)
   \<and> 1 / 2 \<le> jitter_factor (1 / 4) \<and> jitter_factor (1 / 4) < 3 / 2"
    by blast
  then show ?thesis by (simp add: run)
qed

text \<open>
  Claim C3 as stated fails: the draw 0.75 gives the factor 1.25, and the delays slept
  are 1.25 times the nominal delays 1 and 2.
\<close>

theorem jitter_above_one_counterexample:
  "slept (snd (retry_with_backoff demo_config
       (\<lambda>k. (Raise ''boom'' :: (nat, string) outcome)) (\<lambda>k. 3 / 4))) = [5 / 4, 5 / 2]
   \<and> nominal_delays (snd (retry_with_backoff demo_config
       (\<lambda>k. (Raise ''boom'' :: (nat, string) outcome)) (\<lambda>k. 3 / 4))) = [1, 2]
   \<and> jitter_factor (3 / 4) = 5 / 4
   \<and> \<not> jitter_factor (3 / 4) \<le> 1"
proof -
  have "retry_with_backoff demo_config
       (\<lambda>k. (Raise ''boom'' :: (nat, string) outcome)) (\<lambda>k. 3 / 4)
     = (Inl (FromFunc ''boom''),
      \<lparr>invocations = 3, nominal_delays = [1, 2], slept = [5 / 4, 5 / 2]\<rparr>)"
    by (simp add: retry_with_backoff_def demo_config_def no_trace_def time_sleep_def
        actual_delay_def jitter_factor_def attempt_loop.simps)
  then show ?thesis by (simp add: jitter_factor_def)
qed

section \<open>Properties of the rate limiters\<close>

subsection \<open>Waiting\<close>

text \<open>
  When the deque is full after pruning and its oldest entry is still inside the window,
  \<open>RateLimiter.acquire\<close> sleeps until that entry is exactly \<open>time_window\<close> old and starts
  over on the pruned deque.
\<close>

lemma acquire_waits:
  assumes "now = fst (time_time w)"
    and "requests (prune now self) = oldest # rest"
    and "int (length (requests (prune now self))) \<ge> max_requests self"
    and "time_window self - (now - oldest) > 0"
  shows "acquire w self
           = acquire (sleep_for (time_window self - (now - oldest)) (snd (time_time w)))
               (prune now self)
       \<and> clock (sleep_for (time_window self - (now - oldest)) (snd (time_time w)))
           = oldest + time_window self"
proof -
  have m: "max_requests (prune now self) = max_requests self"
    "time_window (prune now self) = time_window self"
    by (simp_all add: prune_def)
  have "acquire w self
          = acquire (sleep_for (time_window self - (now - oldest)) (snd (time_time w)))
              (prune now self)"
    using assms m by (subst acquire.simps) (simp add: Let_def)
  moreover have "clock (sleep_for (time_window self - (now - oldest)) (snd (time_time w)))
          = oldest + time_window self"
    using assms(1) by (simp add: sleep_for_def clock_time_time)
  ultimately show ?thesis by simp
qed

text \<open>
  When the oldest entry is exactly \<open>time_window\<close> old, the pruning loop keeps it (its
  test is strict) and the computed wait is 0, so \<open>acquire\<close> records although the deque
  is full.
\<close>

lemma acquire_records_on_boundary:
  assumes "now = fst (time_time w)"
    and "requests (prune now self) = oldest # rest"
    and "int (length (requests (prune now self))) \<ge> max_requests self"
    and "oldest = now - time_window self"
  shows "acquire w self = (None, record_request (snd (time_time w)) (prune now self))"
proof -
  have m: "max_requests (prune now self) = max_requests self"
    "time_window (prune now self) = time_window self"
    by (simp_all add: prune_def)
  show ?thesis
    using assms m by (subst acquire.simps) (simp add: Let_def)
qed

text \<open>
  In \<open>AsyncRateLimiter.acquire\<close> the call that starts over is made inside
  \<open>async with self.lock\<close>, with the lock held: whenever the coroutine has to wait, it
  never returns.
\<close>

lemma async_acquire_blocks_when_waiting:
  assumes "\<not> locked self"
    and "now = fst (time_time w)"
    and "requests (prune now self) = oldest # rest"
    and "int (length (requests (prune now self))) \<ge> max_requests self"
    and "time_window self - (now - oldest) > 0"
  shows "async_acquire w self = None"
proof -
  have l: "locked (prune now (self\<lparr>locked := True\<rparr>))" by (simp add: prune_def)
  have r: "requests (prune now (self\<lparr>locked := True\<rparr>)) = oldest # rest"
    using assms(3) by (simp add: prune_def)
  have m: "max_requests (prune now (self\<lparr>locked := True\<rparr>)) = max_requests self"
    "time_window (prune now (self\<lparr>locked := True\<rparr>)) = time_window self"
    by (simp_all add: prune_def)
  have inner: "async_acquire w' (prune now (self\<lparr>locked := True\<rparr>)) = None" for w'
    using l by (subst async_acquire.simps) simp
  show ?thesis
    using assms r m inner
    by (subst async_acquire.simps) (simp add: Let_def)
qed

subsection \<open>Admissions inside one window\<close>

text \<open>
  Claim C1 at the inputs where the code departs from it. With \<open>max_requests = 1\<close> and
  \<open>time_window = 10\<close>: a first \<open>acquire\<close> at time 0 records 0; a second and a third
  \<open>acquire\<close>, both while the clock reads 10, each find the deque full with its oldest
  entry exactly 10 old, compute a wait of 0 and record, so that two timestamps equal to
  10 (and three entries in all) are recorded with one request allowed per window. And
  the second \<open>acquire\<close> on an \<open>AsyncRateLimiter\<close>, at time 1, has to wait and never
  returns: it does not evaluate again.
\<close>

theorem rate_limiter_window_overrun:
  "acquire_n 3 \<lparr>clock = 0, elapsing = [0, 0, 10, 0, 0, 0]\<rparr> (RateLimiter_init 1 10)
     = (None, \<lparr>clock = 10, elapsing = []\<rparr>,
        \<lparr>max_requests = 1, time_window = 10, requests = [0, 10, 10]\<rparr>)
   \<and> in_window 10 10 [0, 10, 10] = [10, 10]
   \<and> async_acquire \<lparr>clock = 0, elapsing = [0, 0]\<rparr> (AsyncRateLimiter_init 1 10)
     = Some (None, \<lparr>clock = 0, elapsing = []\<rparr>,
         \<lparr>max_requests = 1, time_window = 10, requests = [0], locked = False\<rparr>)
   \<and> async_acquire \<lparr>clock = 0, elapsing = [1, 0, 0]\<rparr>
         \<lparr>max_requests = 1, time_window = 10, requests = [0], locked = False\<rparr> = None"
proof (intro conjI)
  show "acquire_n 3 \<lparr>clock = 0, elapsing = [0, 0, 10, 0, 0, 0]\<rparr> (RateLimiter_init 1 10)
     = (None, \<lparr>clock = 10, elapsing = []\<rparr>,
        \<lparr>max_requests = 1, time_window = 10, requests = [0, 10, 10]\<rparr>)"
    by (simp add: numeral_3_eq_3 acquire.simps time_time_def prune_def record_request_def
          RateLimiter_init_def sleep_for_def Let_def)
  show "in_window 10 10 [0, 10, 10] = [10, 10]"
    by (simp add: in_window_def)
  show "async_acquire \<lparr>clock = 0, elapsing = [0, 0]\<rparr> (AsyncRateLimiter_init 1 10)
     = Some (None, \<lparr>clock = 0, elapsing = []\<rparr>,
         \<lparr>max_requests = 1, time_window = 10, requests = [0], locked = False\<rparr>)"
    by (simp add: async_acquire.simps time_time_def prune_def record_request_def
          AsyncRateLimiter_init_def Let_def)
  show "async_acquire \<lparr>clock = 0, elapsing = [1, 0, 0]\<rparr>
         \<lparr>max_requests = 1, time_window = 10, requests = [0], locked = False\<rparr> = None"
    by (simp add: async_acquire.simps time_time_def prune_def sleep_for_def Let_def)
qed

subsection \<open>Two threads\<close>

text \<open>
  A thread that runs alone and does not have to wait makes four steps, and leaves the
  limiter as a call of \<open>acquire\<close> at that time does.
\<close>

lemma lone_thread_matches_acquire:
  assumes "thread_step t (prune t self) (Checking t) = Some (prune t self, Recording)"
  shows "run [Run 0, Run 0, Run 0, Run 0] \<lparr>wall_clock = t, limiter = self, threads = [Start]\<rparr>
       = Some \<lparr>wall_clock = t,
           limiter = snd (snd (acquire \<lparr>clock = t, elapsing = []\<rparr> self)),
           threads = [Finished]\<rparr>"
proof -
  have a: "acquire \<lparr>clock = t, elapsing = []\<rparr> self
      = (None, record_request \<lparr>clock = t, elapsing = []\<rparr> (prune t self))"
    using assms
    by (subst acquire.simps)
       (auto simp: thread_step_def time_time_def Let_def split: if_splits list.splits)
  have r: "snd (record_request \<lparr>clock = t, elapsing = []\<rparr> (prune t self))
      = (prune t self)\<lparr>requests := requests (prune t self) @ [t]\<rparr>"
    by (simp add: record_request_def time_time_def)
  have s1: "thread_step t self Start = Some (self, Pruning t)"
    and s2: "thread_step t self (Pruning t) = Some (prune t self, Checking t)"
    and s4: "thread_step t (prune t self) Recording
        = Some ((prune t self)\<lparr>requests := requests (prune t self) @ [t]\<rparr>, Finished)"
    by (simp_all add: thread_step_def)
  show ?thesis
    by (simp add: step_def s1 s2 assms s4 a r)
qed

text \<open>
  Claim C9 at the input where the code departs from it. Two threads call \<open>acquire\<close> on
  a \<open>RateLimiter\<close> with \<open>max_requests = 1\<close> and \<open>time_window = 60\<close>, at time 0. Thread 0
  reads the clock, prunes and passes the test of the length; then thread 1 runs its
  whole call and records; then thread 0 records as well. Both are admitted in the same
  window.
\<close>

theorem threaded_acquire_race:
  "run [Run 0, Run 0, Run 0, Run 1, Run 1, Run 1, Run 1, Run 0]
      \<lparr>wall_clock = 0, limiter = RateLimiter_init 1 60, threads = [Start, Start]\<rparr>
     = Some \<lparr>wall_clock = 0,
          limiter = \<lparr>max_requests = 1, time_window = 60, requests = [0, 0]\<rparr>,
          threads = [Finished, Finished]\<rparr>
   \<and> in_window 60 0 [0, 0] = [0, 0]"
  by (simp add: step_def thread_step_def prune_def RateLimiter_init_def in_window_def Let_def)

end
